theory Spec2Isabelle
  imports Main "HOL-Library.Char_ord" "HOL-Library.List_Lexorder"
begin

section \<open>JavaScript values as the relay sees them\<close>

text \<open>
  The relay (src/index.ts) receives its event payload as the result of \<^verbatim>\<open>req.json()\<close>,
  a value of type \<^verbatim>\<open>any\<close>.  It is modelled by the JSON values below.  A property that
  is missing reads as \<^verbatim>\<open>undefined\<close>, which is \<open>None\<close> of \<open>json option\<close>.

  Strings are HOL strings: lists of 8-bit characters, read as code units.  JSON numbers
  are modelled by the integers (the schema's numeric fields, \<^verbatim>\<open>issue_number\<close> and
  \<^verbatim>\<open>build.pr\<close>, are integers), printed in decimal digits as JavaScript prints an
  integer of magnitude below \<open>10\<^sup>2\<^sup>1\<close>; a number that is not an integer, or one that
  JavaScript prints with an exponent, is outside the model.  \<^verbatim>\<open>Number(s)\<close> on a string
  \<open>s\<close> is a function of the platform and is taken as the parameter \<open>N\<close>, with \<open>None\<close> for
  a result that is not finite.  Objects are association lists in insertion order.
\<close>

datatype json =
    JNull
  | JBool bool
  | JNum int
  | JStr string
  | JArr "json list"
  | JObj "(string \<times> json) list"

text \<open>Truthiness: \<^verbatim>\<open>null\<close>, \<^verbatim>\<open>false\<close>, \<^verbatim>\<open>0\<close> and \<^verbatim>\<open>""\<close> are falsy.\<close>

fun truthy :: "json \<Rightarrow> bool" where
  "truthy JNull = False"
| "truthy (JBool b) = b"
| "truthy (JNum n) = (n \<noteq> 0)"
| "truthy (JStr s) = (s \<noteq> [])"
| "truthy (JArr xs) = True"
| "truthy (JObj kvs) = True"

fun truthy_opt :: "json option \<Rightarrow> bool" where
  "truthy_opt None = False"
| "truthy_opt (Some v) = truthy v"

text \<open>\<^verbatim>\<open>x != null\<close> is false for \<^verbatim>\<open>undefined\<close> and for \<^verbatim>\<open>null\<close>.\<close>

fun nullish :: "json option \<Rightarrow> bool" where
  "nullish None = True"
| "nullish (Some JNull) = True"
| "nullish (Some v) = False"

text \<open>\<^verbatim>\<open>typeof x === "object"\<close> for a truthy \<open>x\<close>, and \<^verbatim>\<open>Array.isArray\<close>.\<close>

fun is_object :: "json \<Rightarrow> bool" where
  "is_object (JArr xs) = True"
| "is_object (JObj kvs) = True"
| "is_object v = False"

fun digits :: "nat \<Rightarrow> string" where
  "digits n =
     (if n < 10 then [''0123456789'' ! n]
      else digits (n div 10) @ [''0123456789'' ! (n mod 10)])"

declare digits.simps [simp del]

definition show_int :: "int \<Rightarrow> string" where
  "show_int n = (if n < 0 then CHR ''-'' # digits (nat (- n)) else digits (nat n))"

fun join :: "string \<Rightarrow> string list \<Rightarrow> string" where
  "join sep [] = []"
| "join sep [x] = x"
| "join sep (x # y # ys) = x @ sep @ join sep (y # ys)"

text \<open>
  A function that can raise returns \<open>Throw\<close> with the message of the error
  (\<^verbatim>\<open>err.message\<close>), or \<open>Return\<close> with its value.
\<close>

datatype 'a result = Throw string | Return 'a

text \<open>The results of a list of computations in order: the first error, or all the values.\<close>

fun returned :: "'a result list \<Rightarrow> 'a list result" where
  "returned [] = Return []"
| "returned (Throw m # rs) = Throw m"
| "returned (Return x # rs) = (case returned rs of Throw m \<Rightarrow> Throw m | Return xs \<Rightarrow> Return (x # xs))"

text \<open>
  \<^verbatim>\<open>String(x)\<close>.  An array prints its elements joined by commas, \<^verbatim>\<open>null\<close> elements as
  the empty string.  An object is converted by its method \<^verbatim>\<open>toString\<close>: the one of
  \<^verbatim>\<open>Object.prototype\<close> prints \<^verbatim>\<open>[object Object]\<close>, but an object parsed from JSON that
  has a property \<^verbatim>\<open>toString\<close> of its own has a value there that cannot be called, its
  \<^verbatim>\<open>valueOf\<close> gives no primitive value either, and the conversion raises a
  \<^verbatim>\<open>TypeError\<close>.
\<close>

definition cannot_convert :: string where
  "cannot_convert = ''Cannot convert object to primitive value''"

fun jsString :: "json \<Rightarrow> string result" where
  "jsString JNull = Return ''null''"
| "jsString (JBool b) = Return (if b then ''true'' else ''false'')"
| "jsString (JNum n) = Return (show_int n)"
| "jsString (JStr s) = Return s"
| "jsString (JArr xs) =
     (case returned (map (\<lambda>x. if x = JNull then Return [] else jsString x) xs) of
        Throw m \<Rightarrow> Throw m
      | Return ss \<Rightarrow> Return (join '','' ss))"
| "jsString (JObj kvs) =
     (if map_of kvs ''toString'' \<noteq> None then Throw cannot_convert else Return ''[object Object]'')"

text \<open>\<^verbatim>\<open>String(x || "")\<close>, the coercion the validator applies to its string fields.\<close>

definition str_or_empty :: "json option \<Rightarrow> string result" where
  "str_or_empty x = (case x of None \<Rightarrow> Return [] | Some v \<Rightarrow> if truthy v then jsString v else Return [])"

text \<open>\<^verbatim>\<open>x != null ? String(x) : undefined\<close>\<close>

definition str_if_present :: "json option \<Rightarrow> string option result" where
  "str_if_present x =
     (case x of
        None \<Rightarrow> Return None
      | Some v \<Rightarrow>
          if v = JNull then Return None
          else (case jsString v of Throw m \<Rightarrow> Throw m | Return s \<Rightarrow> Return (Some s)))"

text \<open>
  The primitive values: what a JSON value is when it is neither an array nor an object.
  \<^verbatim>\<open>String\<close> of a primitive value never raises.
\<close>

datatype prim = PNull | PBool bool | PNum int | PStr string

fun prim_json :: "prim \<Rightarrow> json" where
  "prim_json PNull = JNull"
| "prim_json (PBool b) = JBool b"
| "prim_json (PNum n) = JNum n"
| "prim_json (PStr s) = JStr s"

fun prim_of :: "json \<Rightarrow> prim option" where
  "prim_of JNull = Some PNull"
| "prim_of (JBool b) = Some (PBool b)"
| "prim_of (JNum n) = Some (PNum n)"
| "prim_of (JStr s) = Some (PStr s)"
| "prim_of (JArr xs) = None"
| "prim_of (JObj kvs) = None"

fun prim_string :: "prim \<Rightarrow> string" where
  "prim_string PNull = ''null''"
| "prim_string (PBool b) = (if b then ''true'' else ''false'')"
| "prim_string (PNum n) = show_int n"
| "prim_string (PStr s) = s"

text \<open>
  Property access \<^verbatim>\<open>x[k]\<close> on a value that is not \<^verbatim>\<open>null\<close>: own properties only.  An
  array and a string answer to their indices and to \<^verbatim>\<open>length\<close>.  The properties
  inherited from a prototype (\<^verbatim>\<open>constructor\<close>, \<^verbatim>\<open>toString\<close> and the like) are left out:
  the relay reads the payload under the names of the schema and a rule under a verdict
  or \<^verbatim>\<open>"_"\<close>, none of which is inherited.
\<close>

fun jsGet :: "json \<Rightarrow> string \<Rightarrow> json option" where
  "jsGet (JObj kvs) k = map_of kvs k"
| "jsGet (JArr xs) k =
     (if k = ''length'' then Some (JNum (int (length xs)))
      else map_of (zip (map digits [0..<length xs]) xs) k)"
| "jsGet (JStr s) k =
     (if k = ''length'' then Some (JNum (int (length s)))
      else map_of (zip (map digits [0..<length s]) (map (\<lambda>c. JStr [c]) s)) k)"
| "jsGet v k = None"

text \<open>
  \<^verbatim>\<open>s.trim()\<close> strips white space at both ends (TAB, LF, VT, FF, CR, space and the
  no-break space among 8-bit code units); \<^verbatim>\<open>s.toLowerCase()\<close> maps the upper-case
  letters.
\<close>

definition is_space :: "char \<Rightarrow> bool" where
  "is_space c = (c \<in> set [CHR 0x09, CHR 0x0A, CHR 0x0B, CHR 0x0C, CHR 0x0D, CHR 0x20, CHR 0xA0])"

definition trim :: "string \<Rightarrow> string" where
  "trim s = rev (dropWhile is_space (rev (dropWhile is_space s)))"

definition upper_chars :: "char list" where
  "upper_chars = ''ABCDEFGHIJKLMNOPQRSTUVWXYZ'' @
     [CHR 0xC0, CHR 0xC1, CHR 0xC2, CHR 0xC3, CHR 0xC4, CHR 0xC5, CHR 0xC6, CHR 0xC7,
      CHR 0xC8, CHR 0xC9, CHR 0xCA, CHR 0xCB, CHR 0xCC, CHR 0xCD, CHR 0xCE, CHR 0xCF,
      CHR 0xD0, CHR 0xD1, CHR 0xD2, CHR 0xD3, CHR 0xD4, CHR 0xD5, CHR 0xD6,
      CHR 0xD8, CHR 0xD9, CHR 0xDA, CHR 0xDB, CHR 0xDC, CHR 0xDD, CHR 0xDE]"

definition lower_chars :: "char list" where
  "lower_chars = ''abcdefghijklmnopqrstuvwxyz'' @
     [CHR 0xE0, CHR 0xE1, CHR 0xE2, CHR 0xE3, CHR 0xE4, CHR 0xE5, CHR 0xE6, CHR 0xE7,
      CHR 0xE8, CHR 0xE9, CHR 0xEA, CHR 0xEB, CHR 0xEC, CHR 0xED, CHR 0xEE, CHR 0xEF,
      CHR 0xF0, CHR 0xF1, CHR 0xF2, CHR 0xF3, CHR 0xF4, CHR 0xF5, CHR 0xF6,
      CHR 0xF8, CHR 0xF9, CHR 0xFA, CHR 0xFB, CHR 0xFC, CHR 0xFD, CHR 0xFE]"

definition lower_char :: "char \<Rightarrow> char" where
  "lower_char c = (case map_of (zip upper_chars lower_chars) c of None \<Rightarrow> c | Some d \<Rightarrow> d)"

definition toLowerCase :: "string \<Rightarrow> string" where
  "toLowerCase s = map lower_char s"

section \<open>Utility functions of the v2 surface\<close>

text \<open>\<^verbatim>\<open>isHexSha\<close>: the regular expression \<^verbatim>\<open>/^[0-9a-f]{7,40}$/i\<close>.\<close>

definition isHexSha :: "string \<Rightarrow> bool" where
  "isHexSha s = (7 \<le> length s \<and> length s \<le> 40 \<and> list_all (\<lambda>c. c \<in> set ''0123456789abcdefABCDEF'') s)"

text \<open>\<^verbatim>\<open>isRepoSlug\<close>: the regular expression \<^verbatim>\<open>/^[^/]+\/[^/]+$/\<close>.\<close>

definition isRepoSlug :: "string \<Rightarrow> bool" where
  "isRepoSlug s =
     (let owner = takeWhile (\<lambda>c. c \<noteq> CHR ''/'') s; rest = dropWhile (\<lambda>c. c \<noteq> CHR ''/'') s
      in owner \<noteq> [] \<and> rest \<noteq> [] \<and> tl rest \<noteq> [] \<and> CHR ''/'' \<notin> set (tl rest))"

text \<open>\<^verbatim>\<open>safeInt\<close>: a string goes through \<^verbatim>\<open>Number\<close>, a number is itself, the rest is \<^verbatim>\<open>NaN\<close>.\<close>

fun safeInt :: "(string \<Rightarrow> int option) \<Rightarrow> json option \<Rightarrow> int option" where
  "safeInt N (Some (JStr s)) = N s"
| "safeInt N (Some (JNum n)) = Some n"
| "safeInt N x = None"

section \<open>Event validation\<close>

text \<open>
  The types \<^verbatim>\<open>ScopeResult\<close> and \<^verbatim>\<open>RelayEvent\<close>.  An optional field is an option.  The
  fields that \<^verbatim>\<open>validateEvent\<close> copies from the payload without coercion
  (\<^verbatim>\<open>severity\<close>, \<^verbatim>\<open>repro_steps\<close>, \<^verbatim>\<open>expected\<close>, \<^verbatim>\<open>actual\<close>, \<^verbatim>\<open>artifacts\<close>, \<^verbatim>\<open>details\<close>)
  keep the JSON value they had.  So does \<^verbatim>\<open>overall_verdict\<close>, of type \<^verbatim>\<open>Verdict\<close>: the
  value that passes the check of lines 802-805 is falsy or one of five strings, and it
  is kept as the primitive value it is.
\<close>

record Build =
  commit_sha :: string
  pr :: "int option"

record ScopeResult =
  sr_id :: string
  sr_status :: string
  sr_notes :: "string option"

record RelayEvent =
  event_id :: string
  repo :: string
  issue_number :: int
  role :: string
  agent :: string
  event_type :: string
  summary :: "string option"
  environment :: "string option"
  build :: "Build option"
  overall_verdict :: "prim option"
  scope_results :: "ScopeResult list option"
  severity :: "json option"
  repro_steps :: "json option"
  expected :: "json option"
  actual :: "json option"
  evidence_urls :: "string list option"
  artifacts :: "json list option"
  details :: "json option"

text \<open>
  The result of \<^verbatim>\<open>validateEvent\<close>: \<^verbatim>\<open>{ok: false, message}\<close>, \<^verbatim>\<open>{ok: true, event}\<close>, or a
  \<^verbatim>\<open>TypeError\<close> raised while a property of \<^verbatim>\<open>null\<close> is read or an object is converted
  to a string, with its message.
\<close>

datatype validation = Rejected string | Accepted RelayEvent | Raised string

text \<open>
  The coercions of lines 774-779, which come before every check, and the checks of
  lines 781-786: the early exit, or the values of \<^verbatim>\<open>event_id\<close>, \<^verbatim>\<open>repo\<close>,
  \<^verbatim>\<open>issue_number\<close>, \<^verbatim>\<open>role\<close>, \<^verbatim>\<open>agent\<close> and \<^verbatim>\<open>event_type\<close>.
\<close>

definition validate_identity ::
  "(string \<Rightarrow> int option) \<Rightarrow> json \<Rightarrow> validation + string \<times> string \<times> int \<times> string \<times> string \<times> string" where
  "validate_identity N e =
     (case str_or_empty (jsGet e ''event_id'') of Throw m \<Rightarrow> Inl (Raised m) | Return event_id0 \<Rightarrow>
     (case str_or_empty (jsGet e ''repo'') of Throw m \<Rightarrow> Inl (Raised m) | Return repo0 \<Rightarrow>
     (case str_or_empty (jsGet e ''role'') of Throw m \<Rightarrow> Inl (Raised m) | Return role0 \<Rightarrow>
     (case str_or_empty (jsGet e ''agent'') of Throw m \<Rightarrow> Inl (Raised m) | Return agent0 \<Rightarrow>
     (case str_or_empty (jsGet e ''event_type'') of Throw m \<Rightarrow> Inl (Raised m) | Return event_type0 \<Rightarrow>
      let event_id' = trim event_id0;
          repo' = trim repo0;
          issue_number' = safeInt N (jsGet e ''issue_number'');
          role' = trim role0;
          agent' = trim agent0;
          event_type' = trim event_type0
      in
      if event_id' = [] \<or> length event_id' < 8 then Inl (Rejected ''event_id is required (min length 8)'')
      else if repo' = [] \<or> \<not> isRepoSlug repo' then Inl (Rejected (''repo must be 'org/repo'' @ [CHR 0x27]))
      else
        (case issue_number' of
           None \<Rightarrow> Inl (Rejected ''issue_number must be a positive integer'')
         | Some issue_number'' \<Rightarrow>
             if issue_number'' = 0 \<or> issue_number'' < 1
             then Inl (Rejected ''issue_number must be a positive integer'')
             else if role' \<notin> set [''QA'', ''DEV'', ''PM'', ''MENTOR'']
             then Inl (Rejected ''role must be QA|DEV|PM|MENTOR'')
             else if agent' = [] \<or> length agent' < 2 then Inl (Rejected ''agent is required'')
             else if event_type' = [] then Inl (Rejected ''event_type is required'')
             else Inr (event_id', repo', issue_number'', role', agent', event_type')))))))"

text \<open>The block on \<^verbatim>\<open>e.build\<close> (lines 788-795): the early exit, or the value of \<^verbatim>\<open>build\<close>.\<close>

definition validate_build :: "(string \<Rightarrow> int option) \<Rightarrow> json \<Rightarrow> validation + Build option" where
  "validate_build N e =
     (case jsGet e ''build'' of
        None \<Rightarrow> Inr None
      | Some b \<Rightarrow>
          if \<not> truthy b then Inr None
          else if \<not> is_object b then Inl (Rejected ''build must be an object'')
          else
            (case str_or_empty (jsGet b ''commit_sha'') of
               Throw m \<Rightarrow> Inl (Raised m)
             | Return commit_sha0 \<Rightarrow>
                 let commit_sha' = toLowerCase (trim commit_sha0);
                     pr' = (if nullish (jsGet b ''pr'') then None else safeInt N (jsGet b ''pr''))
                 in
                 if commit_sha' = [] \<or> \<not> isHexSha commit_sha'
                 then Inl (Rejected ''build.commit_sha must be a hex sha (7-40 chars)'')
                 else Inr (Some \<lparr> commit_sha = commit_sha',
                                   pr = (case pr' of None \<Rightarrow> None | Some n \<Rightarrow> if n \<noteq> 0 then Some n else None) \<rparr>)))"

text \<open>Lines 797-800: the early exit, or the value of \<^verbatim>\<open>environment\<close>.\<close>

definition validate_environment :: "json \<Rightarrow> validation + string option" where
  "validate_environment e =
     (case jsGet e ''environment'' of
        None \<Rightarrow> Inr None
      | Some v \<Rightarrow>
          if \<not> truthy v then Inr None
          else
            (case jsString v of
               Throw m \<Rightarrow> Inl (Raised m)
             | Return environment' \<Rightarrow>
                 if environment' \<noteq> [] \<and> environment' \<notin> set [''preview'', ''production'', ''dev'']
                 then Inl (Rejected ''environment must be preview|production|dev'')
                 else Inr (Some environment')))"

text \<open>
  Lines 802-805: the early exit, or the value of \<^verbatim>\<open>overall_verdict\<close>.  An array or an
  object is truthy and is none of the five strings.
\<close>

definition validate_verdict :: "json \<Rightarrow> validation + prim option" where
  "validate_verdict e =
     (case jsGet e ''overall_verdict'' of
        None \<Rightarrow> Inr None
      | Some v \<Rightarrow>
          (case prim_of v of
             None \<Rightarrow> Inl (Rejected ''overall_verdict invalid'')
           | Some p \<Rightarrow>
               if truthy v \<and> p \<notin> set [PStr ''PASS'', PStr ''FAIL'', PStr ''BLOCKED'',
                                          PStr ''PASS_UNVERIFIED'', PStr ''FAIL_UNCONFIRMED'']
               then Inl (Rejected ''overall_verdict invalid'')
               else Inr (Some p)))"

text \<open>
  The \<^verbatim>\<open>map\<close> over \<^verbatim>\<open>e.scope_results\<close> (lines 812-816).  It converts every element
  before any element is checked; reading \<^verbatim>\<open>r.id\<close> of an element \<^verbatim>\<open>null\<close> raises, and so
  does a conversion to a string that raises.
\<close>

fun map_scope_results :: "json list \<Rightarrow> ScopeResult list result" where
  "map_scope_results [] = Return []"
| "map_scope_results (r # rs) =
     (if r = JNull then Throw ''Cannot read properties of null (reading 'id')''
      else
        (case str_or_empty (jsGet r ''id'') of Throw m \<Rightarrow> Throw m | Return id0 \<Rightarrow>
        (case str_or_empty (jsGet r ''status'') of Throw m \<Rightarrow> Throw m | Return status0 \<Rightarrow>
        (case str_if_present (jsGet r ''notes'') of Throw m \<Rightarrow> Throw m | Return notes' \<Rightarrow>
        (case map_scope_results rs of
           Throw m \<Rightarrow> Throw m
         | Return srs \<Rightarrow>
             Return (\<lparr> sr_id = trim id0, sr_status = trim status0, sr_notes = notes' \<rparr> # srs))))))"

text \<open>The loop over the mapped scope results (lines 818-821): the first violation.\<close>

fun check_scope_results :: "ScopeResult list \<Rightarrow> string option" where
  "check_scope_results [] = None"
| "check_scope_results (r # rs) =
     (if sr_id r = [] then Some ''scope_results[].id is required''
      else if sr_status r \<notin> set [''PASS'', ''FAIL'', ''SKIPPED'']
      then Some ''scope_results[].status must be PASS|FAIL|SKIPPED''
      else check_scope_results rs)"

text \<open>
  The block on \<^verbatim>\<open>e.scope_results\<close> (lines 807-822): the early exit, or the value of
  \<^verbatim>\<open>scope_results\<close>.
\<close>

definition validate_scope_results :: "json \<Rightarrow> validation + ScopeResult list option" where
  "validate_scope_results e =
     (if nullish (jsGet e ''scope_results'') then Inr None
      else
        (case jsGet e ''scope_results'' of
           Some (JArr rs) \<Rightarrow>
             if length rs < 1 then Inl (Rejected ''scope_results must be a non-empty array'')
             else
               (case map_scope_results rs of
                  Throw m \<Rightarrow> Inl (Raised m)
                | Return srs \<Rightarrow>
                    (case check_scope_results srs of
                       Some message \<Rightarrow> Inl (Rejected message)
                     | None \<Rightarrow> Inr (Some srs)))
         | _ \<Rightarrow> Inl (Rejected ''scope_results must be a non-empty array'')))"

text \<open>
  The loop over \<^verbatim>\<open>["repro_steps", "expected", "actual"]\<close> (lines 829-833): the early
  exit, if any.
\<close>

fun check_required :: "json \<Rightarrow> string list \<Rightarrow> validation option" where
  "check_required e [] = None"
| "check_required e (k # ks) =
     (case jsGet e k of
        None \<Rightarrow> Some (Rejected (k @ '' is required for FAIL/BLOCKED (min length 3)''))
      | Some v \<Rightarrow>
          if \<not> truthy v then Some (Rejected (k @ '' is required for FAIL/BLOCKED (min length 3)''))
          else
            (case jsString v of
               Throw m \<Rightarrow> Some (Raised m)
             | Return s \<Rightarrow>
                 if length (trim s) < 3
                 then Some (Rejected (k @ '' is required for FAIL/BLOCKED (min length 3)''))
                 else check_required e ks))"

text \<open>The conditional requirements on FAIL/BLOCKED (lines 824-834): the early exit, if any.\<close>

definition validate_failure_fields :: "json \<Rightarrow> validation option" where
  "validate_failure_fields e =
     (if jsGet e ''overall_verdict'' = Some (JStr ''FAIL'') \<or> jsGet e ''overall_verdict'' = Some (JStr ''BLOCKED'')
      then
        (case jsGet e ''severity'' of
           None \<Rightarrow> Some (Rejected ''severity is required for FAIL/BLOCKED and must be P0|P1|P2|P3'')
         | Some v \<Rightarrow>
             if \<not> truthy v
             then Some (Rejected ''severity is required for FAIL/BLOCKED and must be P0|P1|P2|P3'')
             else
               (case jsString v of
                  Throw m \<Rightarrow> Some (Raised m)
                | Return s \<Rightarrow>
                    if s \<notin> set [''P0'', ''P1'', ''P2'', ''P3'']
                    then Some (Rejected ''severity is required for FAIL/BLOCKED and must be P0|P1|P2|P3'')
                    else check_required e [''repro_steps'', ''expected'', ''actual'']))
      else None)"

text \<open>The block on \<^verbatim>\<open>e.evidence_urls\<close> (lines 836-839).\<close>

definition validate_evidence_urls :: "json \<Rightarrow> validation + string list option" where
  "validate_evidence_urls e =
     (case jsGet e ''evidence_urls'' of
        None \<Rightarrow> Inr None
      | Some eu \<Rightarrow>
          if \<not> truthy eu then Inr None
          else
            (case eu of
               JArr us \<Rightarrow>
                 (case returned (map jsString us) of
                    Throw m \<Rightarrow> Inl (Raised m)
                  | Return urls \<Rightarrow> Inr (Some urls))
             | _ \<Rightarrow> Inl (Rejected ''evidence_urls must be an array of strings'')))"

text \<open>
  \<^verbatim>\<open>validateEvent\<close>: the blocks in the order of the source, and the object literal of
  lines 841-860, whose one coercion is that of \<^verbatim>\<open>summary\<close>.
\<close>

definition validateEvent :: "(string \<Rightarrow> int option) \<Rightarrow> json \<Rightarrow> validation" where
  "validateEvent N e =
    (if \<not> truthy e \<or> \<not> is_object e then Rejected ''Body must be a JSON object''
     else
      (case validate_identity N e of
         Inl early \<Rightarrow> early
       | Inr (event_id', repo', issue_number', role', agent', event_type') \<Rightarrow>
      (case validate_build N e of
         Inl early \<Rightarrow> early
       | Inr build' \<Rightarrow>
      (case validate_environment e of
         Inl early \<Rightarrow> early
       | Inr environment' \<Rightarrow>
      (case validate_verdict e of
         Inl early \<Rightarrow> early
       | Inr overall_verdict' \<Rightarrow>
      (case validate_scope_results e of
         Inl early \<Rightarrow> early
       | Inr scope_results' \<Rightarrow>
      (case validate_failure_fields e of
         Some early \<Rightarrow> early
       | None \<Rightarrow>
      (case validate_evidence_urls e of
         Inl early \<Rightarrow> early
       | Inr evidence_urls' \<Rightarrow>
      (case str_if_present (jsGet e ''summary'') of
         Throw m \<Rightarrow> Raised m
       | Return summary' \<Rightarrow>
      Accepted \<lparr>
        event_id = event_id',
        repo = repo',
        issue_number = issue_number',
        role = role',
        agent = agent',
        event_type = event_type',
        summary = summary',
        environment = environment',
        build = build',
        overall_verdict = overall_verdict',
        scope_results = scope_results',
        severity = jsGet e ''severity'',
        repro_steps = jsGet e ''repro_steps'',
        expected = jsGet e ''expected'',
        actual = jsGet e ''actual'',
        evidence_urls = evidence_urls',
        artifacts = (case jsGet e ''artifacts'' of Some (JArr as) \<Rightarrow> Some as | _ \<Rightarrow> None),
        details = jsGet e ''details''
      \<rparr>)))))))))"

section \<open>Canonical payload\<close>

text \<open>
  \<^verbatim>\<open>JSON.stringify\<close> without indentation.  A string is quoted; the quotation mark, the
  backslash and the control characters are escaped, every other code unit is copied.
\<close>

definition escapes :: "(char \<times> string) list" where
  "escapes =
     [(CHR 0x22, [CHR 0x5C, CHR 0x22]), (CHR 0x5C, [CHR 0x5C, CHR 0x5C]),
      (CHR 0x00, CHR 0x5C # ''u0000''),
      (CHR 0x01, CHR 0x5C # ''u0001''),
      (CHR 0x02, CHR 0x5C # ''u0002''),
      (CHR 0x03, CHR 0x5C # ''u0003''),
      (CHR 0x04, CHR 0x5C # ''u0004''),
      (CHR 0x05, CHR 0x5C # ''u0005''),
      (CHR 0x06, CHR 0x5C # ''u0006''),
      (CHR 0x07, CHR 0x5C # ''u0007''),
      (CHR 0x08, [CHR 0x5C, CHR ''b'']),
      (CHR 0x09, [CHR 0x5C, CHR ''t'']),
      (CHR 0x0A, [CHR 0x5C, CHR ''n'']),
      (CHR 0x0B, CHR 0x5C # ''u000b''),
      (CHR 0x0C, [CHR 0x5C, CHR ''f'']),
      (CHR 0x0D, [CHR 0x5C, CHR ''r'']),
      (CHR 0x0E, CHR 0x5C # ''u000e''),
      (CHR 0x0F, CHR 0x5C # ''u000f''),
      (CHR 0x10, CHR 0x5C # ''u0010''),
      (CHR 0x11, CHR 0x5C # ''u0011''),
      (CHR 0x12, CHR 0x5C # ''u0012''),
      (CHR 0x13, CHR 0x5C # ''u0013''),
      (CHR 0x14, CHR 0x5C # ''u0014''),
      (CHR 0x15, CHR 0x5C # ''u0015''),
      (CHR 0x16, CHR 0x5C # ''u0016''),
      (CHR 0x17, CHR 0x5C # ''u0017''),
      (CHR 0x18, CHR 0x5C # ''u0018''),
      (CHR 0x19, CHR 0x5C # ''u0019''),
      (CHR 0x1A, CHR 0x5C # ''u001a''),
      (CHR 0x1B, CHR 0x5C # ''u001b''),
      (CHR 0x1C, CHR 0x5C # ''u001c''),
      (CHR 0x1D, CHR 0x5C # ''u001d''),
      (CHR 0x1E, CHR 0x5C # ''u001e''),
      (CHR 0x1F, CHR 0x5C # ''u001f'')]"

definition quote :: "string \<Rightarrow> string" where
  "quote s = CHR 0x22 # concat (map (\<lambda>c. case map_of escapes c of None \<Rightarrow> [c] | Some e \<Rightarrow> e) s) @ [CHR 0x22]"

fun stringify :: "json \<Rightarrow> string" where
  "stringify JNull = ''null''"
| "stringify (JBool b) = (if b then ''true'' else ''false'')"
| "stringify (JNum n) = show_int n"
| "stringify (JStr s) = quote s"
| "stringify (JArr xs) = ''['' @ join '','' (map stringify xs) @ '']''"
| "stringify (JObj kvs) =
     ''{'' @ join '','' (map (\<lambda>kv. quote (fst kv) @ '':'' @ stringify (snd kv)) kvs) @ ''}''"

text \<open>
  The object that \<^verbatim>\<open>JSON.stringify(event)\<close> serialises: the properties of the event in
  the order of the object literal of lines 841-860, a property whose value is
  \<^verbatim>\<open>undefined\<close> left out.
\<close>

definition opt_field :: "string \<Rightarrow> ('a \<Rightarrow> json) \<Rightarrow> 'a option \<Rightarrow> (string \<times> json) list" where
  "opt_field k f x = (case x of None \<Rightarrow> [] | Some v \<Rightarrow> [(k, f v)])"

definition build_json :: "Build \<Rightarrow> json" where
  "build_json b = JObj ([(''commit_sha'', JStr (commit_sha b))] @ opt_field ''pr'' JNum (pr b))"

definition scope_result_json :: "ScopeResult \<Rightarrow> json" where
  "scope_result_json r =
     JObj ([(''id'', JStr (sr_id r)), (''status'', JStr (sr_status r))] @ opt_field ''notes'' JStr (sr_notes r))"

definition event_json :: "RelayEvent \<Rightarrow> json" where
  "event_json ev =
     JObj ([(''event_id'', JStr (event_id ev)),
            (''repo'', JStr (repo ev)),
            (''issue_number'', JNum (issue_number ev)),
            (''role'', JStr (role ev)),
            (''agent'', JStr (agent ev)),
            (''event_type'', JStr (event_type ev))]
           @ opt_field ''summary'' JStr (summary ev)
           @ opt_field ''environment'' JStr (environment ev)
           @ opt_field ''build'' build_json (build ev)
           @ opt_field ''overall_verdict'' prim_json (overall_verdict ev)
           @ opt_field ''scope_results'' (\<lambda>rs. JArr (map scope_result_json rs)) (scope_results ev)
           @ opt_field ''severity'' (\<lambda>v. v) (severity ev)
           @ opt_field ''repro_steps'' (\<lambda>v. v) (repro_steps ev)
           @ opt_field ''expected'' (\<lambda>v. v) (expected ev)
           @ opt_field ''actual'' (\<lambda>v. v) (actual ev)
           @ opt_field ''evidence_urls'' (\<lambda>us. JArr (map JStr us)) (evidence_urls ev)
           @ opt_field ''artifacts'' JArr (artifacts ev)
           @ opt_field ''details'' (\<lambda>v. v) (details ev))"

section \<open>The world of one request: store, clock and forge\<close>

text \<open>
  A function of the pipeline that can raise returns its \<open>result\<close> beside the state it
  leaves behind, since what was written before the error stays written.
\<close>

text \<open>What the forge returns, as far as the relay reads it.\<close>

datatype label = LStr string | LObj "string option"

record user =
  login :: "string option"

record issue =
  labels :: "label list option"
  assignees :: "user list option"
  assignee :: "user option"

record comment =
  c_id :: int
  c_body :: "string option"

text \<open>
  The requests of \<^verbatim>\<open>githubFetch\<close> that the event pipeline sends, each with the bearer
  token it carries.  \<open>ListComments\<close> records the \<^verbatim>\<open>per_page\<close> and \<^verbatim>\<open>page\<close> of its query.
\<close>

datatype call =
    CreateAccessToken string
  | GetPull string string int
  | GetIssue string string int
  | ListComments string string int nat nat
  | CreateComment string string int string
  | UpdateComment string string string string
  | PutLabels string string int "json list"

text \<open>
  The forge is an oracle: its reply to a request may depend on every request made
  before.  \<open>Inl (status, text)\<close> is a reply that is not 2xx.
\<close>

record forge =
  access_token_reply :: "call list \<Rightarrow> (nat \<times> string) + string"
  pull_reply :: "call list \<Rightarrow> string \<Rightarrow> int \<Rightarrow> (nat \<times> string) + string option"
  issue_reply :: "call list \<Rightarrow> string \<Rightarrow> int \<Rightarrow> (nat \<times> string) + issue"
  comments_reply :: "call list \<Rightarrow> string \<Rightarrow> int \<Rightarrow> nat \<Rightarrow> (nat \<times> string) + comment list"
  create_reply :: "call list \<Rightarrow> string \<Rightarrow> int \<Rightarrow> string \<Rightarrow> (nat \<times> string) + int"
  update_reply :: "call list \<Rightarrow> string \<Rightarrow> string \<Rightarrow> string \<Rightarrow> (nat \<times> string) + unit"
  labels_reply :: "call list \<Rightarrow> string \<Rightarrow> int \<Rightarrow> json list \<Rightarrow> (nat \<times> string) + unit"

text \<open>
  The functions of the platform that the relay calls: \<^verbatim>\<open>Number\<close> on a string,
  \<^verbatim>\<open>crypto.subtle.digest\<close> behind \<^verbatim>\<open>sha256Hex\<close>, \<^verbatim>\<open>JSON.parse\<close> (\<open>None\<close> when it
  raises), the unchecked cast of a parsed payload to \<^verbatim>\<open>RelayEvent\<close>, the clock
  behind \<^verbatim>\<open>nowIso\<close> (its readings in order) and the signing of the app token in
  \<^verbatim>\<open>createAppJwt\<close>.
\<close>

record platform =
  Number_of :: "string \<Rightarrow> int option"
  sha256Hex :: "string \<Rightarrow> string"
  JSON_parse :: "string \<Rightarrow> json option"
  as_RelayEvent :: "json \<Rightarrow> RelayEvent"
  clock :: "nat \<Rightarrow> string"
  createAppJwt :: "string result"

record env =
  RELAY_SHARED_SECRET :: string
  LABEL_RULES_JSON :: string

text \<open>
  The tables \<^verbatim>\<open>events\<close> and \<^verbatim>\<open>relay_status_comment\<close> of the D1 database (the
  statements on the database are taken not to fail), the requests sent to the forge so
  far, and the number of clock readings so far.
\<close>

record event_row =
  row_event_id :: string
  row_repo :: string
  row_issue_number :: int
  row_event_type :: string
  row_role :: string
  row_agent :: string
  row_environment :: "string option"
  row_overall_verdict :: "prim option"
  row_created_at :: string
  row_payload_hash :: string
  row_payload_json :: string

record state =
  events :: "event_row list"
  relay_status_comment :: "string \<times> int \<Rightarrow> (string \<times> string) option"
  calls :: "call list"
  ticks :: nat

definition nowIso :: "platform \<Rightarrow> state \<Rightarrow> string \<times> state" where
  "nowIso P st = (clock P (ticks st), st\<lparr>ticks := Suc (ticks st)\<rparr>)"

definition sent :: "call \<Rightarrow> state \<Rightarrow> state" where
  "sent c st = st\<lparr>calls := calls st @ [c]\<rparr>"

definition http_error :: "string \<Rightarrow> nat \<times> string \<Rightarrow> string" where
  "http_error what r = what @ digits (fst r) @ '' '' @ snd r"

section \<open>GitHub operations\<close>

definition getInstallationToken :: "platform \<Rightarrow> forge \<Rightarrow> state \<Rightarrow> string result \<times> state" where
  "getInstallationToken P F st =
     (case createAppJwt P of
        Throw m \<Rightarrow> (Throw m, st)
      | Return appJwt \<Rightarrow>
          (case access_token_reply F (calls st) of
             Inl r \<Rightarrow> (Throw (http_error ''GitHub installation token error: '' r), sent (CreateAccessToken appJwt) st)
           | Inr token \<Rightarrow> (Return token, sent (CreateAccessToken appJwt) st)))"

definition getPullRequestHeadSha :: "forge \<Rightarrow> string \<Rightarrow> string \<Rightarrow> int \<Rightarrow> state \<Rightarrow> string result \<times> state" where
  "getPullRequestHeadSha F ghToken repo' prNumber st =
     (case pull_reply F (calls st) repo' prNumber of
        Inl r \<Rightarrow> (Throw (http_error ''GitHub PR fetch error: '' r), sent (GetPull ghToken repo' prNumber) st)
      | Inr sha \<Rightarrow>
          (Return (toLowerCase (case sha of None \<Rightarrow> [] | Some h \<Rightarrow> h)), sent (GetPull ghToken repo' prNumber) st))"

definition getIssueDetails :: "forge \<Rightarrow> string \<Rightarrow> string \<Rightarrow> int \<Rightarrow> state \<Rightarrow> issue result \<times> state" where
  "getIssueDetails F ghToken repo' issueNumber st =
     (case issue_reply F (calls st) repo' issueNumber of
        Inl r \<Rightarrow> (Throw (http_error ''GitHub issue fetch error: '' r), sent (GetIssue ghToken repo' issueNumber) st)
      | Inr i \<Rightarrow> (Return i, sent (GetIssue ghToken repo' issueNumber) st))"

definition listIssueComments ::
  "forge \<Rightarrow> string \<Rightarrow> string \<Rightarrow> int \<Rightarrow> nat \<Rightarrow> state \<Rightarrow> comment list result \<times> state" where
  "listIssueComments F ghToken repo' issueNumber page st =
     (case comments_reply F (calls st) repo' issueNumber page of
        Inl r \<Rightarrow> (Throw (http_error ''GitHub list comments error: '' r),
                  sent (ListComments ghToken repo' issueNumber 100 page) st)
      | Inr cs \<Rightarrow> (Return cs, sent (ListComments ghToken repo' issueNumber 100 page) st))"

definition createIssueComment ::
  "forge \<Rightarrow> string \<Rightarrow> string \<Rightarrow> int \<Rightarrow> string \<Rightarrow> state \<Rightarrow> int result \<times> state" where
  "createIssueComment F ghToken repo' issueNumber body' st =
     (case create_reply F (calls st) repo' issueNumber body' of
        Inl r \<Rightarrow> (Throw (http_error ''GitHub create comment error: '' r),
                  sent (CreateComment ghToken repo' issueNumber body') st)
      | Inr new_id \<Rightarrow> (Return new_id, sent (CreateComment ghToken repo' issueNumber body') st))"

definition updateIssueComment ::
  "forge \<Rightarrow> string \<Rightarrow> string \<Rightarrow> string \<Rightarrow> string \<Rightarrow> state \<Rightarrow> unit result \<times> state" where
  "updateIssueComment F ghToken repo' commentId body' st =
     (case update_reply F (calls st) repo' commentId body' of
        Inl r \<Rightarrow> (Throw (http_error ''GitHub update comment error: '' r),
                  sent (UpdateComment ghToken repo' commentId body') st)
      | Inr u \<Rightarrow> (Return (), sent (UpdateComment ghToken repo' commentId body') st))"

definition putIssueLabels ::
  "forge \<Rightarrow> string \<Rightarrow> string \<Rightarrow> int \<Rightarrow> json list \<Rightarrow> state \<Rightarrow> unit result \<times> state" where
  "putIssueLabels F ghToken repo' issueNumber ls st =
     (case labels_reply F (calls st) repo' issueNumber ls of
        Inl r \<Rightarrow> (Throw (http_error ''GitHub update labels error: '' r),
                  sent (PutLabels ghToken repo' issueNumber ls) st)
      | Inr u \<Rightarrow> (Return (), sent (PutLabels ghToken repo' issueNumber ls) st))"

section \<open>Label transitions\<close>

definition parseLabelRules :: "platform \<Rightarrow> env \<Rightarrow> json option" where
  "parseLabelRules P E =
     (case JSON_parse P (LABEL_RULES_JSON E) of
        None \<Rightarrow> None
      | Some parsed \<Rightarrow> if \<not> truthy parsed \<or> \<not> is_object parsed then None else Some parsed)"

text \<open>
  A JavaScript \<^verbatim>\<open>Set\<close> keeps its elements in the order of insertion and compares them
  by \<^verbatim>\<open>SameValueZero\<close>: primitive values by value, and an array or an object of the
  parsed rules only with itself, so that it equals no other element.
\<close>

definition same_value :: "json \<Rightarrow> json \<Rightarrow> bool" where
  "same_value a b = (\<not> is_object a \<and> a = b)"

definition set_add :: "json list \<Rightarrow> json \<Rightarrow> json list" where
  "set_add s a = (if list_ex (\<lambda>x. same_value x a) s then s else s @ [a])"

definition set_delete :: "json list \<Rightarrow> json \<Rightarrow> json list" where
  "set_delete s r = filter (\<lambda>x. \<not> same_value x r) s"

fun label_name :: "label \<Rightarrow> string option" where
  "label_name (LStr l) = Some l"
| "label_name (LObj n) = n"

text \<open>\<^verbatim>\<open>labels.map(l => typeof l === "string" ? l : l.name).filter(Boolean)\<close>\<close>

definition label_names :: "label list \<Rightarrow> string list" where
  "label_names ls = filter (\<lambda>l. l \<noteq> []) (concat (map (\<lambda>l. case label_name l of None \<Rightarrow> [] | Some n \<Rightarrow> [n]) ls))"

text \<open>
  Lines 1052-1057: the rule of an event type and a verdict.  The key is the verdict, or
  \<^verbatim>\<open>"_"\<close> when the verdict is \<^verbatim>\<open>undefined\<close> or \<^verbatim>\<open>null\<close>; a rule that is missing or falsy
  under the key is looked up under \<^verbatim>\<open>"_"\<close>.
\<close>

definition select_rule :: "json \<Rightarrow> string \<Rightarrow> prim option \<Rightarrow> json option" where
  "select_rule rules eventType verdict =
     (case jsGet rules eventType of
        None \<Rightarrow> None
      | Some typeRule \<Rightarrow>
          if \<not> truthy typeRule then None
          else
            let key = (case verdict of
                         None \<Rightarrow> ''_''
                       | Some v \<Rightarrow> if v = PNull then ''_'' else prim_string v);
                rule = (if truthy_opt (jsGet typeRule key) then jsGet typeRule key
                        else jsGet typeRule ''_'')
            in if truthy_opt rule then rule else None)"

text \<open>\<^verbatim>\<open>Array.isArray(rule.add) ? rule.add : []\<close>, and the same for \<^verbatim>\<open>remove\<close>.\<close>

definition rule_list :: "json \<Rightarrow> string \<Rightarrow> json list" where
  "rule_list rule k = (case jsGet rule k of Some (JArr xs) \<Rightarrow> xs | _ \<Rightarrow> [])"

text \<open>Lines 1067-1069: the set of the current labels, each addition, then each removal.\<close>

definition next_labels :: "string list \<Rightarrow> json list \<Rightarrow> json list \<Rightarrow> json list" where
  "next_labels current add remove =
     foldl set_delete (foldl set_add (foldl set_add [] (map JStr current)) add) remove"

definition applyLabelRules ::
  "platform \<Rightarrow> env \<Rightarrow> forge \<Rightarrow> string \<Rightarrow> string \<Rightarrow> int \<Rightarrow> string \<Rightarrow> prim option \<Rightarrow> state
     \<Rightarrow> unit result \<times> state" where
  "applyLabelRules P E F ghToken repo' issueNumber eventType verdict st =
     (case parseLabelRules P E of
        None \<Rightarrow> (Return (), st)
      | Some rules \<Rightarrow>
          (case select_rule rules eventType verdict of
             None \<Rightarrow> (Return (), st)
           | Some rule \<Rightarrow>
               (case getIssueDetails F ghToken repo' issueNumber st of
                  (Throw m, st1) \<Rightarrow> (Throw m, st1)
                | (Return i, st1) \<Rightarrow>
                    putIssueLabels F ghToken repo' issueNumber
                      (next_labels (label_names (case labels i of None \<Rightarrow> [] | Some ls \<Rightarrow> ls))
                         (rule_list rule ''add'') (rule_list rule ''remove''))
                      st1)))"

section \<open>Rolling comment upsert\<close>

definition RELAY_STATUS_MARKER :: string where
  "RELAY_STATUS_MARKER = ''<!-- RELAY_STATUS v2 -->''"

text \<open>\<^verbatim>\<open>s.includes(t)\<close>: \<open>t\<close> occurs in \<open>s\<close>.\<close>

fun str_includes :: "string \<Rightarrow> string \<Rightarrow> bool" where
  "str_includes [] t = (t = [])"
| "str_includes (x # xs) t = (take (length t) (x # xs) = t \<or> str_includes xs t)"

definition has_marker :: "comment \<Rightarrow> bool" where
  "has_marker c = (case c_body c of None \<Rightarrow> False | Some b \<Rightarrow> str_includes b RELAY_STATUS_MARKER)"

text \<open>
  The loop of lines 1097-1104, entered with \<^verbatim>\<open>page = 1\<close> and \<^verbatim>\<open>found = null\<close>.  It
  returns the value of \<^verbatim>\<open>found\<close> at its exit.
\<close>

function scan_comments ::
  "forge \<Rightarrow> string \<Rightarrow> string \<Rightarrow> int \<Rightarrow> nat \<Rightarrow> comment option \<Rightarrow> state \<Rightarrow> comment option result \<times> state" where
  "scan_comments F ghToken repo' issueNumber page found st =
     (if page \<le> 3 \<and> found = None then
        (case listIssueComments F ghToken repo' issueNumber page st of
           (Throw m, st1) \<Rightarrow> (Throw m, st1)
         | (Return comments, st1) \<Rightarrow>
             if length comments < 100 then (Return (find has_marker comments), st1)
             else scan_comments F ghToken repo' issueNumber (page + 1) (find has_marker comments) st1)
      else (Return found, st))"
  by pat_completeness auto
termination
  by (relation "measure (\<lambda>(F, ghToken, repo', issueNumber, page, found, st). 4 - page)") auto

declare scan_comments.simps [simp del]

text \<open>\<^verbatim>\<open>INSERT OR REPLACE INTO relay_status_comment\<close> with a fresh reading of the clock.\<close>

definition put_mapping :: "platform \<Rightarrow> string \<Rightarrow> int \<Rightarrow> string \<Rightarrow> state \<Rightarrow> state" where
  "put_mapping P repo' issueNumber commentId st =
     (let (t, st1) = nowIso P st
      in st1\<lparr>relay_status_comment := (relay_status_comment st1)((repo', issueNumber) \<mapsto> (commentId, t))\<rparr>)"

text \<open>\<^verbatim>\<open>UPDATE relay_status_comment SET updated_at = ?\<close> on the row of the issue.\<close>

definition touch_mapping :: "platform \<Rightarrow> string \<Rightarrow> int \<Rightarrow> state \<Rightarrow> state" where
  "touch_mapping P repo' issueNumber st =
     (let (t, st1) = nowIso P st
      in st1\<lparr>relay_status_comment :=
               (case relay_status_comment st1 (repo', issueNumber) of
                  None \<Rightarrow> relay_status_comment st1
                | Some (commentId, t0) \<Rightarrow> (relay_status_comment st1)((repo', issueNumber) \<mapsto> (commentId, t)))\<rparr>)"

text \<open>The update of the comment that the scan found (lines 1107-1112).\<close>

definition update_found ::
  "platform \<Rightarrow> forge \<Rightarrow> string \<Rightarrow> string \<Rightarrow> int \<Rightarrow> string \<Rightarrow> comment \<Rightarrow> state \<Rightarrow> string result \<times> state" where
  "update_found P F ghToken repo' issueNumber body' found st =
     (let commentId = show_int (c_id found) in
      case updateIssueComment F ghToken repo' commentId body' st of
        (Throw m, st1) \<Rightarrow> (Throw m, st1)
      | (Return u, st1) \<Rightarrow> (Return commentId, put_mapping P repo' issueNumber commentId st1))"

text \<open>Step 3, the creation of a new comment (lines 1115-1123).\<close>

definition create_new ::
  "platform \<Rightarrow> forge \<Rightarrow> string \<Rightarrow> string \<Rightarrow> int \<Rightarrow> string \<Rightarrow> state \<Rightarrow> string result \<times> state" where
  "create_new P F ghToken repo' issueNumber body' st =
     (case createIssueComment F ghToken repo' issueNumber body' st of
        (Throw m, st1) \<Rightarrow> (Throw m, st1)
      | (Return created_id, st1) \<Rightarrow>
          (Return (show_int created_id), put_mapping P repo' issueNumber (show_int created_id) st1))"

text \<open>Steps 2 and 3 of the upsert (lines 1096-1123): the marker scan, then the creation.\<close>

definition scan_then_create ::
  "platform \<Rightarrow> forge \<Rightarrow> string \<Rightarrow> string \<Rightarrow> int \<Rightarrow> string \<Rightarrow> state \<Rightarrow> string result \<times> state" where
  "scan_then_create P F ghToken repo' issueNumber body' st =
     (case scan_comments F ghToken repo' issueNumber 1 None st of
        (Throw m, st1) \<Rightarrow> (Throw m, st1)
      | (Return found, st1) \<Rightarrow>
          (case found of
             None \<Rightarrow> create_new P F ghToken repo' issueNumber body' st1
           | Some c \<Rightarrow>
               if c_id c \<noteq> 0 then update_found P F ghToken repo' issueNumber body' c st1
               else create_new P F ghToken repo' issueNumber body' st1))"

text \<open>
  \<^verbatim>\<open>upsertRollingComment\<close>.  Step 1 (lines 1080-1094) is the only one inside a
  \<^verbatim>\<open>try\<close>: an error of its update is caught and the steps after it run.
\<close>

definition upsertRollingComment ::
  "platform \<Rightarrow> forge \<Rightarrow> string \<Rightarrow> string \<Rightarrow> int \<Rightarrow> string \<Rightarrow> state \<Rightarrow> string result \<times> state" where
  "upsertRollingComment P F ghToken repo' issueNumber body' st =
     (case relay_status_comment st (repo', issueNumber) of
        None \<Rightarrow> scan_then_create P F ghToken repo' issueNumber body' st
      | Some (mapped_id, t0) \<Rightarrow>
          if mapped_id = [] then scan_then_create P F ghToken repo' issueNumber body' st
          else
            (case updateIssueComment F ghToken repo' mapped_id body' st of
               (Return u, st1) \<Rightarrow> (Return mapped_id, touch_mapping P repo' issueNumber st1)
             | (Throw m, st1) \<Rightarrow> scan_then_create P F ghToken repo' issueNumber body' st1))"

section \<open>Rolling comment rendering\<close>

text \<open>
  The template's dash is U+2014.  It occurs only in literal text that is concatenated
  and never measured, and is written here as its three UTF-8 bytes.
\<close>

definition EM_DASH :: string where
  "EM_DASH = [CHR 0xE2, CHR 0x80, CHR 0x94]"

definition normalizeLabels :: "issue \<Rightarrow> string list" where
  "normalizeLabels i = label_names (case labels i of None \<Rightarrow> [] | Some ls \<Rightarrow> ls)"

definition extractOwner :: "issue \<Rightarrow> string" where
  "extractOwner i =
     (case (case assignees i of None \<Rightarrow> [] | Some us \<Rightarrow> us) of
        u # us \<Rightarrow> ''@'' @ (case login u of None \<Rightarrow> ''undefined'' | Some l \<Rightarrow> l)
      | [] \<Rightarrow>
          (case assignee i of
             None \<Rightarrow> ''unassigned''
           | Some u \<Rightarrow>
               (case login u of
                  None \<Rightarrow> ''unassigned''
                | Some l \<Rightarrow> if l \<noteq> [] then ''@'' @ l else ''unassigned'')))"

definition pickStatus :: "string list \<Rightarrow> string" where
  "pickStatus ls =
     (case find (\<lambda>l. take 7 l = ''status:'') ls of
        None \<Rightarrow> ''unknown''
      | Some status \<Rightarrow> drop 7 status)"

definition formatShortSha :: "string option \<Rightarrow> string" where
  "formatShortSha sha =
     (case sha of
        None \<Rightarrow> ''n/a''
      | Some h \<Rightarrow> if h = [] then ''n/a'' else ''`'' @ take 7 h @ ''`'')"

record Provenance =
  prov_pr :: "int option"
  prov_commit :: "string option"
  prov_verified :: "bool option"
  prov_prHead :: "string option"
  prov_environment :: "string option"

record recent_event =
  rc_created_at :: string
  rc_event_type :: string
  rc_agent :: string

record render_input =
  in_issue :: issue
  in_repo :: string
  in_issueNumber :: int
  in_provenance :: Provenance
  in_latestDev :: "RelayEvent option"
  in_latestQa :: "RelayEvent option"
  in_recent :: "recent_event list"

definition scope_line :: "ScopeResult \<Rightarrow> string" where
  "scope_line s =
     ''  - '' @ sr_id s @ '' '' @ EM_DASH @ '' '' @ sr_status s @
     (case sr_notes s of
        None \<Rightarrow> []
      | Some n \<Rightarrow> if n \<noteq> [] then '' ('' @ n @ '')'' else [])"

definition recent_line :: "recent_event \<Rightarrow> string" where
  "recent_line r =
     ''- '' @ take 5 (drop 11 (rc_created_at r)) @ ''Z '' @ EM_DASH @ '' '' @ rc_event_type r @
     '' '' @ EM_DASH @ '' '' @ rc_agent r"

definition renderRelayStatusMarkdown :: "render_input \<Rightarrow> string" where
  "renderRelayStatusMarkdown input =
     (let ls = normalizeLabels (in_issue input);
          owner = extractOwner (in_issue input);
          status = pickStatus ls;
          pr' = (case prov_pr (in_provenance input) of
                   None \<Rightarrow> ''n/a''
                 | Some n \<Rightarrow> if n \<noteq> 0 then ''#'' @ show_int n else ''n/a'');
          commit = formatShortSha (prov_commit (in_provenance input));
          env' = (case prov_environment (in_provenance input) of
                    None \<Rightarrow> ''unknown''
                  | Some e \<Rightarrow> if e \<noteq> [] then e else ''unknown'');
          prov = (case prov_verified (in_provenance input) of
                    None \<Rightarrow> ''n/a''
                  | Some v \<Rightarrow>
                      if v then ''VERIFIED (matches PR head)''
                      else ''UNVERIFIED (PR head: '' @ formatShortSha (prov_prHead (in_provenance input)) @ '')'');
          qaVerdict = (case in_latestQa input of
                         None \<Rightarrow> ''n/a''
                       | Some q \<Rightarrow>
                           (case overall_verdict q of
                              None \<Rightarrow> ''n/a''
                            | Some v \<Rightarrow> if truthy (prim_json v) then prim_string v else ''n/a''));
          qaScope = (case in_latestQa input of
                       None \<Rightarrow> []
                     | Some q \<Rightarrow> (case scope_results q of None \<Rightarrow> [] | Some rs \<Rightarrow> rs));
          qaEvidence = (case in_latestQa input of
                          None \<Rightarrow> []
                        | Some q \<Rightarrow> (case evidence_urls q of None \<Rightarrow> [] | Some us \<Rightarrow> us));
          devSummary = (case in_latestDev input of
                          None \<Rightarrow> []
                        | Some d \<Rightarrow> (case summary d of None \<Rightarrow> [] | Some t \<Rightarrow> t));
          scopeLines = (if qaScope \<noteq> [] then join ''\<newline>'' (map scope_line qaScope) else ''  - n/a'');
          evidenceLines = (if qaEvidence \<noteq> [] then join ''\<newline>'' (map (\<lambda>u. ''  - '' @ u) qaEvidence)
                           else ''  - n/a'');
          recentLines = (if in_recent input \<noteq> [] then join ''\<newline>'' (map recent_line (in_recent input))
                         else ''- n/a'')
      in join ''\<newline>''
           [RELAY_STATUS_MARKER,
            [],
            ''## Relay Status '' @ EM_DASH @ '' ISSUE #'' @ show_int (in_issueNumber input),
            [],
            ''### Current State'',
            ''- Status: `'' @ status @ ''`'',
            ''- Labels: '' @ (if ls \<noteq> [] then join '', '' (map (\<lambda>l. ''`'' @ l @ ''`'') ls) else ''n/a''),
            ''- Owner: '' @ owner,
            [],
            ''### Build Provenance'',
            ''- Environment: `'' @ env' @ ''`'',
            ''- PR: '' @ pr',
            ''- Commit: '' @ commit,
            ''- Provenance: '' @ prov,
            [],
            ''### Latest Dev Update'',
            (if devSummary \<noteq> [] then ''- Summary: '' @ devSummary else ''- Summary: n/a''),
            [],
            ''### Latest QA Result'',
            ''- Verdict: `'' @ qaVerdict @ ''`'',
            ''- Scope:'',
            scopeLines,
            ''- Evidence:'',
            evidenceLines,
            [],
            ''### Recent Activity'',
            recentLines,
            []])"

section \<open>The events handler\<close>

datatype response = JsonResponse nat json | TextResponse nat string

text \<open>
  \<^verbatim>\<open>v2Json(data, status)\<close> is \<open>JsonResponse status data\<close>: the response is kept as the
  value it serialises.  A property whose value is \<^verbatim>\<open>undefined\<close> is absent from it.
\<close>

definition badRequest :: "string \<Rightarrow> response" where
  "badRequest message = JsonResponse 400 (JObj [(''error'', JStr message)])"

definition conflict :: "string \<Rightarrow> json \<Rightarrow> response" where
  "conflict message details' = JsonResponse 409 (JObj [(''error'', JStr message), (''details'', details')])"

definition unauthorized :: response where
  "unauthorized = TextResponse 401 ''Unauthorized''"

text \<open>A request: its \<^verbatim>\<open>x-relay-key\<close> header and the result of \<^verbatim>\<open>req.json()\<close>.\<close>

record request =
  x_relay_key :: "string option"
  req_json :: "json option"

definition requireAuth :: "request \<Rightarrow> env \<Rightarrow> response option" where
  "requireAuth req E =
     (case x_relay_key req of
        None \<Rightarrow> Some unauthorized
      | Some key \<Rightarrow> if key = [] \<or> key \<noteq> RELAY_SHARED_SECRET E then Some unauthorized else None)"

definition safeParseEvent :: "platform \<Rightarrow> string \<Rightarrow> RelayEvent option" where
  "safeParseEvent P payloadJson =
     (case JSON_parse P payloadJson of
        None \<Rightarrow> None
      | Some e \<Rightarrow> if truthy e \<and> is_object e then Some (as_RelayEvent P e) else None)"

text \<open>
  \<^verbatim>\<open>ORDER BY created_at DESC\<close>: the rows in descending order of the text of
  \<^verbatim>\<open>created_at\<close>; among rows of equal \<^verbatim>\<open>created_at\<close>, which SQL leaves open, the one
  inserted last comes first.
\<close>

definition newest_first :: "event_row list \<Rightarrow> event_row list" where
  "newest_first rows = rev (sort_key row_created_at rows)"

definition getLatestEventByType :: "state \<Rightarrow> string \<Rightarrow> int \<Rightarrow> string \<Rightarrow> event_row option" where
  "getLatestEventByType st repo' issueNumber eventType =
     (case newest_first (filter (\<lambda>r. row_repo r = repo' \<and> row_issue_number r = issueNumber
                                     \<and> row_event_type r = eventType) (events st)) of
        [] \<Rightarrow> None
      | r # rs \<Rightarrow> Some r)"

definition getRecentEvents :: "state \<Rightarrow> string \<Rightarrow> int \<Rightarrow> nat \<Rightarrow> recent_event list" where
  "getRecentEvents st repo' issueNumber limit =
     map (\<lambda>r. \<lparr> rc_created_at = row_created_at r, rc_event_type = row_event_type r, rc_agent = row_agent r \<rparr>)
       (take limit (newest_first (filter (\<lambda>r. row_repo r = repo' \<and> row_issue_number r = issueNumber) (events st))))"

text \<open>
  The provenance check of lines 1376-1388, after the head of the pull request has been
  fetched: the flag and the effective verdict.
\<close>

definition downgrade :: "bool \<Rightarrow> prim option \<Rightarrow> prim option" where
  "downgrade provenanceVerified verdict =
     (if \<not> provenanceVerified \<and> verdict = Some (PStr ''PASS'') then Some (PStr ''PASS_UNVERIFIED'')
      else verdict)"

text \<open>
  The condition of line 1381 and, under it, lines 1382-1383: the values of
  \<^verbatim>\<open>provenanceVerified\<close> and \<^verbatim>\<open>prHeadSha\<close>, both \<^verbatim>\<open>null\<close> when the event has no
  \<^verbatim>\<open>build.pr\<close> or no \<^verbatim>\<open>build.commit_sha\<close>.
\<close>

definition check_provenance ::
  "forge \<Rightarrow> string \<Rightarrow> RelayEvent \<Rightarrow> state \<Rightarrow> (bool option \<times> string option) result \<times> state" where
  "check_provenance F ghToken event st =
     (case build event of
        None \<Rightarrow> (Return (None, None), st)
      | Some b \<Rightarrow>
          (case pr b of
             None \<Rightarrow> (Return (None, None), st)
           | Some n \<Rightarrow>
               if n \<noteq> 0 \<and> commit_sha b \<noteq> [] then
                 (case getPullRequestHeadSha F ghToken (repo event) n st of
                    (Throw m, st1) \<Rightarrow> (Throw m, st1)
                  | (Return prHeadSha, st1) \<Rightarrow>
                      (Return (Some (prHeadSha = toLowerCase (commit_sha b)), Some prHeadSha), st1))
               else (Return (None, None), st)))"

text \<open>The \<^verbatim>\<open>INSERT INTO events\<close> of lines 1391-1407.\<close>

definition insert_event ::
  "platform \<Rightarrow> RelayEvent \<Rightarrow> prim option \<Rightarrow> string \<Rightarrow> string \<Rightarrow> state \<Rightarrow> state" where
  "insert_event P event effectiveVerdict payloadHash payloadJson st =
     (let (t, st1) = nowIso P st
      in st1\<lparr>events := events st1 @
            [\<lparr> row_event_id = event_id event,
                row_repo = repo event,
                row_issue_number = issue_number event,
                row_event_type = event_type event,
                row_role = role event,
                row_agent = agent event,
                row_environment = environment event,
                row_overall_verdict = (if effectiveVerdict = Some PNull then None else effectiveVerdict),
                row_created_at = t,
                row_payload_hash = payloadHash,
                row_payload_json = payloadJson \<rparr>]\<rparr>)"

text \<open>
  Lines 1412-1436: the latest dev and qa events and the recent activity are read from
  the store, and the body of the rolling comment is rendered.
\<close>

definition status_body ::
  "platform \<Rightarrow> RelayEvent \<Rightarrow> bool option \<Rightarrow> string option \<Rightarrow> issue \<Rightarrow> state \<Rightarrow> string" where
  "status_body P event provenanceVerified prHeadSha i st =
     (let latestDevRow = getLatestEventByType st (repo event) (issue_number event) ''dev.update'';
          latestQaRow = getLatestEventByType st (repo event) (issue_number event) ''qa.result_submitted'';
          latestDev = (case latestDevRow of None \<Rightarrow> None | Some r \<Rightarrow> safeParseEvent P (row_payload_json r));
          latestQa = (case latestQaRow of None \<Rightarrow> None | Some r \<Rightarrow> safeParseEvent P (row_payload_json r));
          recent = getRecentEvents st (repo event) (issue_number event) 5;
          provenance = \<lparr> prov_pr = (case build event of None \<Rightarrow> None | Some b \<Rightarrow> pr b),
                         prov_commit = (case build event of None \<Rightarrow> None | Some b \<Rightarrow> Some (commit_sha b)),
                         prov_verified = provenanceVerified,
                         prov_prHead = prHeadSha,
                         prov_environment = environment event \<rparr>
      in renderRelayStatusMarkdown
           \<lparr> in_issue = i, in_repo = repo event, in_issueNumber = issue_number event,
             in_provenance = provenance, in_latestDev = latestDev, in_latestQa = latestQa,
             in_recent = recent \<rparr>)"

text \<open>
  Lines 1409-1450, what follows the insertion of the row: the issue is fetched, the
  rolling comment is upserted, the label rules are applied, and the response 201 is
  built.
\<close>

definition publish ::
  "platform \<Rightarrow> env \<Rightarrow> forge \<Rightarrow> string \<Rightarrow> RelayEvent \<Rightarrow> prim option \<Rightarrow> bool option \<Rightarrow> string option
     \<Rightarrow> state \<Rightarrow> response result \<times> state" where
  "publish P E F ghToken event effectiveVerdict provenanceVerified prHeadSha st =
     (case getIssueDetails F ghToken (repo event) (issue_number event) st of
        (Throw m, st3) \<Rightarrow> (Throw m, st3)
      | (Return i, st3) \<Rightarrow>
     (case upsertRollingComment P F ghToken (repo event) (issue_number event)
             (status_body P event provenanceVerified prHeadSha i st3) st3 of
        (Throw m, st4) \<Rightarrow> (Throw m, st4)
      | (Return commentId, st4) \<Rightarrow>
     (case applyLabelRules P E F ghToken (repo event) (issue_number event) (event_type event)
             effectiveVerdict st4 of
        (Throw m, st5) \<Rightarrow> (Throw m, st5)
      | (Return u, st5) \<Rightarrow>
          (Return (JsonResponse 201
             (JObj ([(''ok'', JBool True),
                     (''event_id'', JStr (event_id event)),
                     (''stored'', JBool True),
                     (''rolling_comment_id'', JStr commentId)]
                    @ opt_field ''verdict'' prim_json effectiveVerdict
                    @ [(''provenance_verified'',
                        (case provenanceVerified of None \<Rightarrow> JNull | Some v \<Rightarrow> JBool v))]))),
           st5))))"

text \<open>
  The pipeline of a new event, lines 1373-1450: what \<^verbatim>\<open>handlePostEvents\<close> does once the
  idempotency check has found no row.  The token is minted, the provenance is checked,
  the verdict is downgraded, the row is inserted, and the rest follows.
\<close>

definition ingest ::
  "platform \<Rightarrow> env \<Rightarrow> forge \<Rightarrow> RelayEvent \<Rightarrow> string \<Rightarrow> string \<Rightarrow> state \<Rightarrow> response result \<times> state" where
  "ingest P E F event payloadJson payloadHash st =
     (case getInstallationToken P F st of
        (Throw m, st0) \<Rightarrow> (Throw m, st0)
      | (Return ghToken, st0) \<Rightarrow>
     (case check_provenance F ghToken event st0 of
        (Throw m, st1) \<Rightarrow> (Throw m, st1)
      | (Return (provenanceVerified, prHeadSha), st1) \<Rightarrow>
     (let effectiveVerdict = (case provenanceVerified of
                                None \<Rightarrow> overall_verdict event
                              | Some v \<Rightarrow> downgrade v (overall_verdict event))
      in publish P E F ghToken event effectiveVerdict provenanceVerified prHeadSha
           (insert_event P event effectiveVerdict payloadHash payloadJson st1))))"

definition handlePostEvents ::
  "platform \<Rightarrow> env \<Rightarrow> forge \<Rightarrow> request \<Rightarrow> state \<Rightarrow> response result \<times> state" where
  "handlePostEvents P E F req st =
     (case requireAuth req E of
        Some authErr \<Rightarrow> (Return authErr, st)
      | None \<Rightarrow>
     (case req_json req of
        None \<Rightarrow> (Return (badRequest ''Invalid JSON body''), st)
      | Some payload \<Rightarrow>
     (case validateEvent (Number_of P) payload of
        Rejected message \<Rightarrow> (Return (badRequest message), st)
      | Raised m \<Rightarrow> (Throw m, st)
      | Accepted event \<Rightarrow>
     (let payloadJson = stringify (event_json event);
          payloadHash = sha256Hex P payloadJson
      in
     (case find (\<lambda>r. row_event_id r = event_id event) (events st) of
        Some existing \<Rightarrow>
          if row_payload_hash existing \<noteq> payloadHash then
            (Return (conflict ''event_id already exists with different payload''
                       (JObj [(''event_id'', JStr (event_id event)),
                              (''existing_hash'', JStr (row_payload_hash existing)),
                              (''new_hash'', JStr payloadHash)])), st)
          else
            (Return (JsonResponse 200
                       (JObj [(''ok'', JBool True), (''idempotent'', JBool True),
                              (''event_id'', JStr (event_id event))])), st)
      | None \<Rightarrow> ingest P E F event payloadJson payloadHash st)))))"

text \<open>
  The route \<^verbatim>\<open>POST /v2/events\<close> of \<^verbatim>\<open>fetch\<close> (lines 204-210): an error raised by the
  handler becomes the response 500.
\<close>

definition post_v2_events :: "platform \<Rightarrow> env \<Rightarrow> forge \<Rightarrow> request \<Rightarrow> state \<Rightarrow> response \<times> state" where
  "post_v2_events P E F req st =
     (case handlePostEvents P E F req st of
        (Return r, st') \<Rightarrow> (r, st')
      | (Throw m, st') \<Rightarrow>
          (JsonResponse 500
             (JObj [(''error'', JStr ''Internal error''),
                    (''details'', JStr (if m \<noteq> [] then m else ''Error''))]), st'))"

section \<open>Vocabulary of the verified statements\<close>

text \<open>
  The definitions of this section are not translations of the source.  They name what
  the statements below talk about: the conditions of the specification on a payload,
  and what can be observed of a response, of the store and of the forge.
\<close>

text \<open>The properties that \<^verbatim>\<open>validateEvent\<close> reads from its payload.\<close>

definition schema_fields :: "string list" where
  "schema_fields =
     [''event_id'', ''repo'', ''issue_number'', ''role'', ''agent'', ''event_type'', ''summary'',
      ''environment'', ''build'', ''overall_verdict'', ''scope_results'', ''severity'',
      ''repro_steps'', ''expected'', ''actual'', ''evidence_urls'', ''artifacts'', ''details'']"

definition accepted :: "validation \<Rightarrow> bool" where
  "accepted v = (case v of Accepted ev \<Rightarrow> True | _ \<Rightarrow> False)"

text \<open>The verdict of the payload is FAIL or BLOCKED.\<close>

definition failing_verdict :: "json \<Rightarrow> bool" where
  "failing_verdict e =
     (jsGet e ''overall_verdict'' = Some (JStr ''FAIL'') \<or> jsGet e ''overall_verdict'' = Some (JStr ''BLOCKED''))"

text \<open>
  The severity is one of P0, P1, P2, P3, and a text field is present with a trimmed
  length of at least 3, both read the way the validator reads them: the value is truthy
  and \<^verbatim>\<open>String\<close> converts it to such a string (for a JSON string, the string itself).
\<close>

definition severity_given :: "json \<Rightarrow> bool" where
  "severity_given e =
     (case jsGet e ''severity'' of
        None \<Rightarrow> False
      | Some v \<Rightarrow> truthy v \<and> jsString v \<in> set (map Return [''P0'', ''P1'', ''P2'', ''P3'']))"

definition text_given :: "json \<Rightarrow> string \<Rightarrow> bool" where
  "text_given e k =
     (case jsGet e k of
        None \<Rightarrow> False
      | Some v \<Rightarrow> truthy v \<and> (case jsString v of Throw m \<Rightarrow> False | Return s \<Rightarrow> 3 \<le> length (trim s)))"

definition failure_fields_given :: "json \<Rightarrow> bool" where
  "failure_fields_given e =
     (severity_given e \<and> text_given e ''repro_steps'' \<and> text_given e ''expected'' \<and> text_given e ''actual'')"


text \<open>The validator returns a result: it raises no error.\<close>

definition returns :: "validation \<Rightarrow> bool" where
  "returns v = (case v of Raised m \<Rightarrow> False | _ \<Rightarrow> True)"

text \<open>
  The blocks of \<^verbatim>\<open>validateEvent\<close> that come before the requirements on FAIL and BLOCKED
  (lines 772-822) have all let the payload pass.
\<close>

definition passes_earlier_checks :: "(string \<Rightarrow> int option) \<Rightarrow> json \<Rightarrow> bool" where
  "passes_earlier_checks N e =
     (truthy e \<and> is_object e \<and> \<not> isl (validate_identity N e) \<and> \<not> isl (validate_build N e) \<and>
      \<not> isl (validate_environment e) \<and> \<not> isl (validate_verdict e) \<and>
      \<not> isl (validate_scope_results e))"

text \<open>The status of a response and a property of its JSON body.\<close>

fun status_of :: "response \<Rightarrow> nat" where
  "status_of (JsonResponse code data) = code"
| "status_of (TextResponse code txt) = code"

fun response_field :: "response \<Rightarrow> string \<Rightarrow> json option" where
  "response_field (JsonResponse code data) k = jsGet data k"
| "response_field (TextResponse code txt) k = None"

text \<open>The row of an event id in the table \<^verbatim>\<open>events\<close>.\<close>

definition stored_row :: "state \<Rightarrow> string \<Rightarrow> event_row option" where
  "stored_row st eid = find (\<lambda>r. row_event_id r = eid) (events st)"

text \<open>
  The effective verdict as the specification words it: PASS becomes PASS_UNVERIFIED
  when the provenance is not verified, every other verdict stays.
\<close>

definition effective_verdict :: "bool \<Rightarrow> prim option \<Rightarrow> prim option" where
  "effective_verdict verified caller =
     (if \<not> verified \<and> caller = Some (PStr ''PASS'') then Some (PStr ''PASS_UNVERIFIED'') else caller)"

text \<open>The value bound to the column \<^verbatim>\<open>overall_verdict\<close>: \<^verbatim>\<open>effectiveVerdict ?? null\<close>.\<close>

definition verdict_column :: "prim option \<Rightarrow> prim option" where
  "verdict_column v = (if v = Some PNull then None else v)"

text \<open>
  The marker scan in the words of the specification.  The requests for the pages
  \<open>1, \<dots>, k\<close>, each of 100 comments; the reply of the forge to the request for page
  \<open>p\<close>, made after the requests for the pages before it; the comments of the pages
  \<open>1, \<dots>, k\<close> in the order of the listing.
\<close>

definition page_calls :: "string \<Rightarrow> string \<Rightarrow> int \<Rightarrow> nat \<Rightarrow> call list" where
  "page_calls tok rp n k = map (ListComments tok rp n 100) [1..<Suc k]"

definition page_reply ::
  "forge \<Rightarrow> string \<Rightarrow> string \<Rightarrow> int \<Rightarrow> state \<Rightarrow> nat \<Rightarrow> (nat \<times> string) + comment list" where
  "page_reply F tok rp n st p = comments_reply F (calls st @ page_calls tok rp n (p - 1)) rp n p"

definition listed :: "forge \<Rightarrow> string \<Rightarrow> string \<Rightarrow> int \<Rightarrow> state \<Rightarrow> nat \<Rightarrow> comment list" where
  "listed F tok rp n st k =
     concat (map (\<lambda>p. case page_reply F tok rp n st p of Inl r \<Rightarrow> [] | Inr cs \<Rightarrow> cs) [1..<Suc k])"

text \<open>
  The scan has listed the pages \<open>1, \<dots>, k\<close>, all answered, and has ended with
  \<open>found\<close>: the first comment with the marker among the comments listed; it has ended
  at page 3, or with a comment found, or on a page of fewer than 100 comments.
\<close>

definition scanned :: "forge \<Rightarrow> string \<Rightarrow> string \<Rightarrow> int \<Rightarrow> state \<Rightarrow> nat \<Rightarrow> comment option \<Rightarrow> bool" where
  "scanned F tok rp n st k found =
     (1 \<le> k \<and> k \<le> 3 \<and>
      (\<forall>p \<in> {1..k}. \<exists>cs. page_reply F tok rp n st p = Inr cs) \<and>
      found = find has_marker (listed F tok rp n st k) \<and>
      (k = 3 \<or> found \<noteq> None \<or> (\<exists>cs. page_reply F tok rp n st k = Inr cs \<and> length cs < 100)))"

text \<open>
  The state after the mapping row of an issue has been written with a comment id and
  a fresh reading of the clock.
\<close>

definition mapped_to :: "platform \<Rightarrow> string \<Rightarrow> int \<Rightarrow> string \<Rightarrow> state \<Rightarrow> state" where
  "mapped_to P rp n cid st =
     st\<lparr>relay_status_comment := (relay_status_comment st)((rp, n) \<mapsto> (cid, clock P (ticks st))),
        ticks := Suc (ticks st)\<rparr>"

section \<open>Example inputs\<close>

text \<open>
  Concrete inputs on which the statements below are exercised.  The platform of the
  examples accepts no string as a number (the examples carry their numbers as JSON
  numbers), hashes a text to itself, and parses one text, the label rules of the
  example environment.
\<close>

definition example_rules :: json where
  "example_rules =
     JObj [(''qa.result_submitted'',
            JObj [(''PASS'', JObj [(''add'', JArr [JStr ''status:verified'']), (''remove'', JArr [JStr ''status:qa''])]),
                  (''FAIL'', JObj [(''add'', JArr [JStr ''status:rejected'']), (''remove'', JArr [JStr ''status:qa''])]),
                  (''_'', JObj [(''add'', JArr [JStr ''needs:triage''])])])]"

definition example_event :: RelayEvent where
  "example_event =
     \<lparr> event_id = ''evt-00000001'', repo = ''acme/web'', issue_number = 42, role = ''QA'',
       agent = ''qa-bot'', event_type = ''qa.result_submitted'', summary = None, environment = None,
       build = Some \<lparr> commit_sha = ''abc1234def'', pr = Some 7 \<rparr>,
       overall_verdict = Some (PStr ''PASS''), scope_results = None, severity = None,
       repro_steps = None, expected = None, actual = None, evidence_urls = None, artifacts = None,
       details = None \<rparr>"

definition example_platform :: platform where
  "example_platform =
     \<lparr> Number_of = (\<lambda>s. None),
       sha256Hex = (\<lambda>s. s),
       JSON_parse = (\<lambda>s. if s = ''RULES'' then Some example_rules else None),
       as_RelayEvent = (\<lambda>j. example_event),
       clock = (\<lambda>n. ''2026-01-01T00:00:0'' @ digits n @ ''Z''),
       createAppJwt = Return ''jwt'' \<rparr>"

definition example_env :: env where
  "example_env = \<lparr> RELAY_SHARED_SECRET = ''s3cret'', LABEL_RULES_JSON = ''RULES'' \<rparr>"

text \<open>Scenario 1 of the specification, and the same payload with a field of no schema.\<close>

definition example_payload :: json where
  "example_payload =
     JObj [(''event_id'', JStr ''evt-00000001''), (''repo'', JStr ''acme/web''),
           (''issue_number'', JNum 42), (''role'', JStr ''QA''), (''agent'', JStr ''qa-bot''),
           (''event_type'', JStr ''qa.result_submitted''), (''overall_verdict'', JStr ''PASS''),
           (''build'', JObj [(''pr'', JNum 7), (''commit_sha'', JStr ''abc1234def'')])]"

definition payload_with_unknown_field :: json where
  "payload_with_unknown_field =
     JObj [(''event_id'', JStr ''evt-00000001''), (''repo'', JStr ''acme/web''),
           (''issue_number'', JNum 42), (''role'', JStr ''QA''), (''agent'', JStr ''qa-bot''),
           (''event_type'', JStr ''qa.result_submitted''), (''overall_verdict'', JStr ''PASS''),
           (''build'', JObj [(''pr'', JNum 7), (''commit_sha'', JStr ''abc1234def'')]),
           (''trace_id'', JStr ''t-77'')]"

text \<open>Scenario 5 of the specification: FAIL without a severity.\<close>

definition fail_payload :: json where
  "fail_payload =
     JObj [(''event_id'', JStr ''evt-00000005''), (''repo'', JStr ''acme/web''),
           (''issue_number'', JNum 42), (''role'', JStr ''QA''), (''agent'', JStr ''qa-bot''),
           (''event_type'', JStr ''qa.result_submitted''), (''overall_verdict'', JStr ''FAIL'')]"

text \<open>
  FAIL with the severity in an array; and FAIL without a severity, with a scope result
  \<^verbatim>\<open>null\<close>.
\<close>

definition fail_payload_array_severity :: json where
  "fail_payload_array_severity =
     JObj [(''event_id'', JStr ''evt-00000005''), (''repo'', JStr ''acme/web''),
           (''issue_number'', JNum 42), (''role'', JStr ''QA''), (''agent'', JStr ''qa-bot''),
           (''event_type'', JStr ''qa.result_submitted''), (''overall_verdict'', JStr ''FAIL''),
           (''severity'', JArr [JStr ''P1'']), (''repro_steps'', JStr ''open the page''),
           (''expected'', JStr ''a list''), (''actual'', JStr ''an error'')]"

definition fail_payload_null_scope :: json where
  "fail_payload_null_scope =
     JObj [(''event_id'', JStr ''evt-00000005''), (''repo'', JStr ''acme/web''),
           (''issue_number'', JNum 42), (''role'', JStr ''QA''), (''agent'', JStr ''qa-bot''),
           (''event_type'', JStr ''qa.result_submitted''), (''overall_verdict'', JStr ''FAIL''),
           (''scope_results'', JArr [JNull])]"

definition example_request :: "json \<Rightarrow> request" where
  "example_request payload = \<lparr> x_relay_key = Some ''s3cret'', req_json = Some payload \<rparr>"

definition empty_state :: state where
  "empty_state = \<lparr> events = [], relay_status_comment = (\<lambda>k. None), calls = [], ticks = 0 \<rparr>"

text \<open>
  A forge that answers every request: the head of every pull request is the given
  commit, the issue carries the labels of scenario 6, an issue has the given comments
  on its first page, an update of a comment is answered as given, and a new comment
  gets the id 9001.
\<close>

definition example_issue :: issue where
  "example_issue =
     \<lparr> labels = Some [LObj (Some ''status:qa''), LObj (Some ''prio:P1'')],
       assignees = Some [\<lparr> login = Some ''octocat'' \<rparr>], assignee = None \<rparr>"

definition example_forge :: "string \<Rightarrow> comment list \<Rightarrow> (nat \<times> string) + unit \<Rightarrow> forge" where
  "example_forge head cs upd =
     \<lparr> access_token_reply = (\<lambda>h. Inr ''ghs_token''),
       pull_reply = (\<lambda>h rp n. Inr (Some head)),
       issue_reply = (\<lambda>h rp n. Inr example_issue),
       comments_reply = (\<lambda>h rp n p. Inr (if p = 1 then cs else [])),
       create_reply = (\<lambda>h rp n b. Inr 9001),
       update_reply = (\<lambda>h rp cid b. upd),
       labels_reply = (\<lambda>h rp n ls. Inr ()) \<rparr>"

definition marker_comment :: comment where
  "marker_comment = \<lparr> c_id = 555, c_body = Some ''<!-- RELAY_STATUS v2 --> old status'' \<rparr>"

definition example_input :: render_input where
  "example_input =
     \<lparr> in_issue = example_issue, in_repo = ''acme/web'', in_issueNumber = 42,
       in_provenance = \<lparr> prov_pr = Some 7, prov_commit = Some ''abc1234def'', prov_verified = Some False,
                         prov_prHead = Some ''ffffffffff'', prov_environment = None \<rparr>,
       in_latestDev = None, in_latestQa = Some example_event, in_recent = [] \<rparr>"

text \<open>A store that maps the issue of the examples to a comment, and a body to post.\<close>

definition mapped_state :: state where
  "mapped_state =
     \<lparr> events = [],
       relay_status_comment = (\<lambda>k. if k = (''acme/web'', 42) then Some (''111'', ''2025-12-31T23:59:59Z'') else None),
       calls = [], ticks = 0 \<rparr>"

definition bad_gateway :: "(nat \<times> string) + unit" where
  "bad_gateway = Inl (502, ''bad gateway'')"

text \<open>A store that already holds a row of the event id of the examples, with a given hash.\<close>

definition stored_state :: "string \<Rightarrow> state" where
  "stored_state h =
     \<lparr> events = [\<lparr> row_event_id = ''evt-00000001'', row_repo = ''acme/web'', row_issue_number = 42,
                    row_event_type = ''qa.result_submitted'', row_role = ''QA'', row_agent = ''qa-bot'',
                    row_environment = None, row_overall_verdict = Some (PStr ''PASS''),
                    row_created_at = ''2025-12-31T23:59:59Z'', row_payload_hash = h,
                    row_payload_json = h \<rparr>],
       relay_status_comment = (\<lambda>k. None), calls = [], ticks = 0 \<rparr>"

section \<open>Validation\<close>

subsection \<open>What an accepted payload has passed\<close>

lemma prim_of_json [simp]: "prim_of (prim_json p) = Some p"
  by (cases p) simp_all

lemma prim_of_Some: "prim_of v = Some p \<Longrightarrow> prim_json p = v"
  by (cases v) auto

lemma jsString_prim: "jsString (prim_json p) = Return (prim_string p)"
  by (cases p) simp_all

lemma identity_not_accepted [simp]: "validate_identity N e \<noteq> Inl (Accepted ev)"
  by (simp add: validate_identity_def Let_def split: result.splits option.splits)

lemma build_not_accepted [simp]: "validate_build N e \<noteq> Inl (Accepted ev)"
  by (simp add: validate_build_def Let_def split: result.splits option.splits)

lemma environment_not_accepted [simp]: "validate_environment e \<noteq> Inl (Accepted ev)"
  by (simp add: validate_environment_def split: result.splits option.splits)

lemma verdict_not_accepted [simp]: "validate_verdict e \<noteq> Inl (Accepted ev)"
  by (simp add: validate_verdict_def split: option.splits)

lemma scope_not_accepted [simp]: "validate_scope_results e \<noteq> Inl (Accepted ev)"
  by (simp add: validate_scope_results_def split: option.splits json.splits result.splits)

lemma check_required_not_accepted [simp]: "check_required e ks \<noteq> Some (Accepted ev)"
  by (induction ks) (simp_all split: option.splits result.splits)

lemma failure_not_accepted [simp]: "validate_failure_fields e \<noteq> Some (Accepted ev)"
  by (simp add: validate_failure_fields_def split: option.splits result.splits)

lemma evidence_not_accepted [simp]: "validate_evidence_urls e \<noteq> Inl (Accepted ev)"
  by (simp add: validate_evidence_urls_def split: option.splits json.splits result.splits)

lemma accepted_iff:
  "accepted (validateEvent N e) \<longleftrightarrow>
     truthy e \<and> is_object e \<and> \<not> isl (validate_identity N e) \<and> \<not> isl (validate_build N e) \<and>
     \<not> isl (validate_environment e) \<and> \<not> isl (validate_verdict e) \<and>
     \<not> isl (validate_scope_results e) \<and> validate_failure_fields e = None \<and>
     \<not> isl (validate_evidence_urls e) \<and> (\<exists>s. str_if_present (jsGet e ''summary'') = Return s)"
  by (auto simp: validateEvent_def accepted_def
      split: sum.splits option.splits result.splits validation.splits)

lemma accepted_fields:
  assumes "validateEvent N e = Accepted ev"
  shows "validate_verdict e = Inr (overall_verdict ev)"
    and "validate_build N e = Inr (build ev)"
    and "validate_identity N e =
           Inr (event_id ev, repo ev, issue_number ev, role ev, agent ev, event_type ev)"
    and "validate_environment e = Inr (environment ev)"
  using assms
  by (auto simp: validateEvent_def
      split: if_split_asm sum.split_asm option.split_asm result.split_asm)

lemma verdict_of_payload:
  assumes "validate_verdict e = Inr p"
  shows "map_option prim_json p = jsGet e ''overall_verdict''"
proof (cases "jsGet e ''overall_verdict''")
  case None
  with assms show ?thesis
    by (simp add: validate_verdict_def)
next
  case (Some v)
  show ?thesis
  proof (cases "prim_of v")
    case None
    with assms Some show ?thesis
      by (simp add: validate_verdict_def)
  next
    case (Some q)
    then have "prim_json q = v"
      by (rule prim_of_Some)
    moreover have "p = Some q"
      using assms \<open>jsGet e ''overall_verdict'' = Some v\<close> Some
      by (simp add: validate_verdict_def split: if_split_asm)
    ultimately show ?thesis
      using \<open>jsGet e ''overall_verdict'' = Some v\<close> by simp
  qed
qed

lemma accepted_verdict:
  assumes "validateEvent N e = Accepted ev"
  shows "map_option prim_json (overall_verdict ev) = jsGet e ''overall_verdict''"
  using accepted_fields(1)[OF assms] by (rule verdict_of_payload)

lemma not_accepted_response:
  assumes "requireAuth req E = None" and "req_json req = Some e"
    and "\<not> accepted (validateEvent (Number_of P) e)"
  shows "snd (post_v2_events P E F req st) = st"
    and "validateEvent (Number_of P) e = Rejected message \<Longrightarrow>
         fst (post_v2_events P E F req st) = badRequest message"
  using assms
  by (auto simp: post_v2_events_def handlePostEvents_def accepted_def split: validation.splits)

subsection \<open>Fields outside the schema\<close>

text \<open>
  C6.  A payload is accepted or rejected, and its event is built, from the eighteen
  properties of the schema alone: two payload objects that agree on them are validated
  to the same result, and the handler answers them alike and leaves the same state, so
  the same \<^verbatim>\<open>payload_json\<close> and \<^verbatim>\<open>payload_hash\<close> are stored.  A field outside the
  schema therefore causes no rejection, and it is dropped: it is not in the stored
  \<^verbatim>\<open>payload_json\<close>.
\<close>

theorem unknown_fields_dropped:
  assumes "\<forall>k \<in> set schema_fields. map_of kvs k = map_of kvs' k"
  shows "validateEvent N (JObj kvs) = validateEvent N (JObj kvs') \<and>
         post_v2_events P E F (req\<lparr>req_json := Some (JObj kvs)\<rparr>) st =
         post_v2_events P E F (req\<lparr>req_json := Some (JObj kvs')\<rparr>) st"
proof -
  have f0: "jsGet (JObj kvs) ''event_id'' = jsGet (JObj kvs') ''event_id''"
    using assms by (simp add: schema_fields_def)
  have f1: "jsGet (JObj kvs) ''repo'' = jsGet (JObj kvs') ''repo''"
    using assms by (simp add: schema_fields_def)
  have f2: "jsGet (JObj kvs) ''issue_number'' = jsGet (JObj kvs') ''issue_number''"
    using assms by (simp add: schema_fields_def)
  have f3: "jsGet (JObj kvs) ''role'' = jsGet (JObj kvs') ''role''"
    using assms by (simp add: schema_fields_def)
  have f4: "jsGet (JObj kvs) ''agent'' = jsGet (JObj kvs') ''agent''"
    using assms by (simp add: schema_fields_def)
  have f5: "jsGet (JObj kvs) ''event_type'' = jsGet (JObj kvs') ''event_type''"
    using assms by (simp add: schema_fields_def)
  have f6: "jsGet (JObj kvs) ''summary'' = jsGet (JObj kvs') ''summary''"
    using assms by (simp add: schema_fields_def)
  have f7: "jsGet (JObj kvs) ''environment'' = jsGet (JObj kvs') ''environment''"
    using assms by (simp add: schema_fields_def)
  have f8: "jsGet (JObj kvs) ''build'' = jsGet (JObj kvs') ''build''"
    using assms by (simp add: schema_fields_def)
  have f9: "jsGet (JObj kvs) ''overall_verdict'' = jsGet (JObj kvs') ''overall_verdict''"
    using assms by (simp add: schema_fields_def)
  have f10: "jsGet (JObj kvs) ''scope_results'' = jsGet (JObj kvs') ''scope_results''"
    using assms by (simp add: schema_fields_def)
  have f11: "jsGet (JObj kvs) ''severity'' = jsGet (JObj kvs') ''severity''"
    using assms by (simp add: schema_fields_def)
  have f12: "jsGet (JObj kvs) ''repro_steps'' = jsGet (JObj kvs') ''repro_steps''"
    using assms by (simp add: schema_fields_def)
  have f13: "jsGet (JObj kvs) ''expected'' = jsGet (JObj kvs') ''expected''"
    using assms by (simp add: schema_fields_def)
  have f14: "jsGet (JObj kvs) ''actual'' = jsGet (JObj kvs') ''actual''"
    using assms by (simp add: schema_fields_def)
  have f15: "jsGet (JObj kvs) ''evidence_urls'' = jsGet (JObj kvs') ''evidence_urls''"
    using assms by (simp add: schema_fields_def)
  have f16: "jsGet (JObj kvs) ''artifacts'' = jsGet (JObj kvs') ''artifacts''"
    using assms by (simp add: schema_fields_def)
  have f17: "jsGet (JObj kvs) ''details'' = jsGet (JObj kvs') ''details''"
    using assms by (simp add: schema_fields_def)
  have v: "validateEvent M (JObj kvs) = validateEvent M (JObj kvs')" for M
    unfolding validateEvent_def validate_identity_def validate_build_def validate_environment_def
      validate_verdict_def validate_scope_results_def validate_failure_fields_def
      validate_evidence_urls_def
    by (simp only: f0 f1 f2 f3 f4 f5 f6 f7 f8 f9 f10 f11 f12 f13 f14 f15 f16 f17 truthy.simps is_object.simps check_required.simps)
  have "handlePostEvents P E F (req\<lparr>req_json := Some (JObj kvs)\<rparr>) st =
        handlePostEvents P E F (req\<lparr>req_json := Some (JObj kvs')\<rparr>) st"
    by (cases "x_relay_key req") (simp_all add: handlePostEvents_def requireAuth_def v)
  then show ?thesis
    by (simp add: v post_v2_events_def)
qed

theorem unknown_fields_dropped_witness:
  "validateEvent (Number_of example_platform) payload_with_unknown_field =
     validateEvent (Number_of example_platform) example_payload \<and>
   post_v2_events example_platform example_env (example_forge ''abc1234def'' [] (Inr ()))
     ((example_request JNull)\<lparr>req_json := Some payload_with_unknown_field\<rparr>) empty_state =
   post_v2_events example_platform example_env (example_forge ''abc1234def'' [] (Inr ()))
     ((example_request JNull)\<lparr>req_json := Some example_payload\<rparr>) empty_state"
  unfolding payload_with_unknown_field_def example_payload_def
  by (rule unknown_fields_dropped) (simp add: schema_fields_def)

text \<open>
  The claim as it was stated fails on the payload of scenario 1 with a field
  \<^verbatim>\<open>trace_id\<close> added: the payload is accepted, and the object that is serialised into
  \<^verbatim>\<open>payload_json\<close> has no property \<^verbatim>\<open>trace_id\<close>, nor does the text of \<^verbatim>\<open>payload_json\<close>
  contain the name.
\<close>

theorem unknown_field_not_preserved:
  "validateEvent (Number_of example_platform) payload_with_unknown_field = Accepted example_event \<and>
   jsGet payload_with_unknown_field ''trace_id'' = Some (JStr ''t-77'') \<and>
   ''trace_id'' \<notin> set schema_fields \<and>
   jsGet (event_json example_event) ''trace_id'' = None \<and>
   \<not> str_includes (stringify (event_json example_event)) ''trace_id''"
  by code_simp

subsection \<open>The requirements on FAIL and BLOCKED\<close>

lemma check_required_None:
  "check_required e ks = None \<longleftrightarrow> (\<forall>k \<in> set ks. text_given e k)"
  by (induction ks) (auto simp: text_given_def split: option.splits result.splits)

lemma validate_failure_fields_None:
  "validate_failure_fields e = None \<longleftrightarrow> (failing_verdict e \<longrightarrow> failure_fields_given e)"
  by (cases "jsGet e ''severity''")
     (auto simp add: validate_failure_fields_def failing_verdict_def failure_fields_given_def
        severity_given_def check_required_None simp del: check_required.simps
        split: result.splits)

lemma severity_missing:
  assumes "failing_verdict e" and "\<not> severity_given e"
  shows "validate_failure_fields e =
           Some (Rejected ''severity is required for FAIL/BLOCKED and must be P0|P1|P2|P3'') \<or>
         (\<exists>m. validate_failure_fields e = Some (Raised m))"
  using assms
  by (cases "jsGet e ''severity''")
     (auto simp add: validate_failure_fields_def failing_verdict_def severity_given_def
        simp del: check_required.simps split: result.splits)

lemma failure_fields_decide:
  assumes "passes_earlier_checks N e" and "validate_failure_fields e = Some early"
  shows "validateEvent N e = early"
  using assms
  by (auto simp: validateEvent_def passes_earlier_checks_def split: sum.splits)

text \<open>
  The claim as it was stated fails on two payloads with the verdict FAIL.  The first has
  the severity \<^verbatim>\<open>["P1"]\<close>, an array and none of the four strings: the validator reads it
  through \<^verbatim>\<open>String\<close> and accepts the payload.  The second has no severity and the scope
  results \<^verbatim>\<open>[null]\<close>: the validator raises while it reads \<^verbatim>\<open>r.id\<close>, before it comes to
  the severity, and the route answers 500, not 400.
\<close>

theorem fail_blocked_rejection_fails:
  "failing_verdict fail_payload_array_severity \<and>
   jsGet fail_payload_array_severity ''severity'' = Some (JArr [JStr ''P1'']) \<and>
   accepted (validateEvent (Number_of example_platform) fail_payload_array_severity) \<and>
   failing_verdict fail_payload_null_scope \<and>
   jsGet fail_payload_null_scope ''severity'' = None \<and>
   post_v2_events example_platform example_env (example_forge ''abc1234def'' [] (Inr ()))
       (example_request fail_payload_null_scope) empty_state =
     (JsonResponse 500
        (JObj [(''error'', JStr ''Internal error''),
               (''details'', JStr ''Cannot read properties of null (reading 'id')'')]),
      empty_state)"
proof -
  have a: "failing_verdict fail_payload_array_severity"
    "jsGet fail_payload_array_severity ''severity'' = Some (JArr [JStr ''P1''])"
    "accepted (validateEvent (Number_of example_platform) fail_payload_array_severity)"
    by code_simp+
  have b: "failing_verdict fail_payload_null_scope"
    "jsGet fail_payload_null_scope ''severity'' = None"
    by code_simp+
  have "validateEvent (Number_of example_platform) fail_payload_null_scope =
      Raised ''Cannot read properties of null (reading 'id')''"
    by code_simp
  then have "post_v2_events example_platform example_env (example_forge ''abc1234def'' [] (Inr ()))
       (example_request fail_payload_null_scope) empty_state =
     (JsonResponse 500
        (JObj [(''error'', JStr ''Internal error''),
               (''details'', JStr ''Cannot read properties of null (reading 'id')'')]),
      empty_state)"
    by (simp add: post_v2_events_def handlePostEvents_def requireAuth_def example_request_def
        example_env_def)
  with a b show ?thesis
    by blast
qed

text \<open>
  C7, as amended.  For an authenticated request whose payload has the verdict FAIL or
  BLOCKED and lacks a severity among P0, P1, P2, P3 or one of \<^verbatim>\<open>repro_steps\<close>,
  \<^verbatim>\<open>expected\<close>, \<^verbatim>\<open>actual\<close> with a trimmed length of at least 3, each value read
  through \<^verbatim>\<open>String\<close> as the validator reads it: the payload is not accepted and the
  state is left as it was (no row is inserted, no request reaches the forge); and
  whenever the validator returns a result, the response is 400 with the one message of
  the validator, which is the message on the severity when every earlier block has let
  the payload pass and the severity is the fault.  When the four fields are given, the
  requirements refuse nothing.  For every other verdict the four fields are not
  required: two payloads that differ in these four fields only are accepted or not
  accepted together.
\<close>

theorem fail_blocked_requirements:
  assumes auth: "requireAuth req E = None" and body: "req_json req = Some e"
  shows "(failing_verdict e \<and> \<not> failure_fields_given e \<longrightarrow>
            \<not> accepted (validateEvent (Number_of P) e) \<and>
            snd (post_v2_events P E F req st) = st \<and>
            (returns (validateEvent (Number_of P) e) \<longrightarrow>
               (\<exists>message. validateEvent (Number_of P) e = Rejected message \<and>
                  fst (post_v2_events P E F req st) = JsonResponse 400 (JObj [(''error'', JStr message)])) \<and>
               (passes_earlier_checks (Number_of P) e \<and> \<not> severity_given e \<longrightarrow>
                  validateEvent (Number_of P) e =
                    Rejected ''severity is required for FAIL/BLOCKED and must be P0|P1|P2|P3''))) \<and>
         (failing_verdict e \<and> failure_fields_given e \<longrightarrow> validate_failure_fields e = None) \<and>
         (\<not> failing_verdict (JObj kvs) \<and>
          (\<forall>k \<in> set schema_fields. k \<notin> set [''severity'', ''repro_steps'', ''expected'', ''actual''] \<longrightarrow>
               map_of kvs k = map_of kvs' k) \<longrightarrow>
            accepted (validateEvent N (JObj kvs)) = accepted (validateEvent N (JObj kvs')))"
proof (intro conjI impI)
  assume a: "failing_verdict e \<and> \<not> failure_fields_given e"
  then have nf: "validate_failure_fields e \<noteq> None"
    by (simp add: validate_failure_fields_None)
  then show na: "\<not> accepted (validateEvent (Number_of P) e)"
    by (simp add: accepted_iff)
  from na show "snd (post_v2_events P E F req st) = st"
    using auth body by (rule not_accepted_response(1)[rotated 2])
  {
    assume r: "returns (validateEvent (Number_of P) e)"
    with na obtain message where m: "validateEvent (Number_of P) e = Rejected message"
      by (cases "validateEvent (Number_of P) e") (auto simp: accepted_def returns_def)
    have "fst (post_v2_events P E F req st) = badRequest message"
      using auth body na m by (rule not_accepted_response(2))
    with m show "\<exists>message. validateEvent (Number_of P) e = Rejected message \<and>
                  fst (post_v2_events P E F req st) = JsonResponse 400 (JObj [(''error'', JStr message)])"
      by (auto simp: badRequest_def)
    {
      assume b: "passes_earlier_checks (Number_of P) e \<and> \<not> severity_given e"
      from a b have "validate_failure_fields e =
           Some (Rejected ''severity is required for FAIL/BLOCKED and must be P0|P1|P2|P3'') \<or>
         (\<exists>m. validate_failure_fields e = Some (Raised m))"
        by (simp add: severity_missing)
      then have "validateEvent (Number_of P) e =
           Rejected ''severity is required for FAIL/BLOCKED and must be P0|P1|P2|P3'' \<or>
         (\<exists>m. validateEvent (Number_of P) e = Raised m)"
        using b failure_fields_decide by blast
      with r show "validateEvent (Number_of P) e =
          Rejected ''severity is required for FAIL/BLOCKED and must be P0|P1|P2|P3''"
        by (auto simp: returns_def)
    }
  }
next
  assume "failing_verdict e \<and> failure_fields_given e"
  then show "validate_failure_fields e = None"
    by (simp add: validate_failure_fields_None)
next
  assume c: "\<not> failing_verdict (JObj kvs) \<and>
          (\<forall>k \<in> set schema_fields. k \<notin> set [''severity'', ''repro_steps'', ''expected'', ''actual''] \<longrightarrow>
               map_of kvs k = map_of kvs' k)"
  then have agree: "\<forall>k \<in> set schema_fields. k \<notin> set [''severity'', ''repro_steps'', ''expected'', ''actual''] \<longrightarrow>
               map_of kvs k = map_of kvs' k"
    by simp
  have g0: "jsGet (JObj kvs) ''event_id'' = jsGet (JObj kvs') ''event_id''"
    using agree by (simp add: schema_fields_def)
  have g1: "jsGet (JObj kvs) ''repo'' = jsGet (JObj kvs') ''repo''"
    using agree by (simp add: schema_fields_def)
  have g2: "jsGet (JObj kvs) ''issue_number'' = jsGet (JObj kvs') ''issue_number''"
    using agree by (simp add: schema_fields_def)
  have g3: "jsGet (JObj kvs) ''role'' = jsGet (JObj kvs') ''role''"
    using agree by (simp add: schema_fields_def)
  have g4: "jsGet (JObj kvs) ''agent'' = jsGet (JObj kvs') ''agent''"
    using agree by (simp add: schema_fields_def)
  have g5: "jsGet (JObj kvs) ''event_type'' = jsGet (JObj kvs') ''event_type''"
    using agree by (simp add: schema_fields_def)
  have g6: "jsGet (JObj kvs) ''summary'' = jsGet (JObj kvs') ''summary''"
    using agree by (simp add: schema_fields_def)
  have g7: "jsGet (JObj kvs) ''environment'' = jsGet (JObj kvs') ''environment''"
    using agree by (simp add: schema_fields_def)
  have g8: "jsGet (JObj kvs) ''build'' = jsGet (JObj kvs') ''build''"
    using agree by (simp add: schema_fields_def)
  have g9: "jsGet (JObj kvs) ''overall_verdict'' = jsGet (JObj kvs') ''overall_verdict''"
    using agree by (simp add: schema_fields_def)
  have g10: "jsGet (JObj kvs) ''scope_results'' = jsGet (JObj kvs') ''scope_results''"
    using agree by (simp add: schema_fields_def)
  have g11: "jsGet (JObj kvs) ''evidence_urls'' = jsGet (JObj kvs') ''evidence_urls''"
    using agree by (simp add: schema_fields_def)
  have idn: "validate_identity N (JObj kvs) = validate_identity N (JObj kvs')"
    unfolding validate_identity_def by (simp only: g0 g1 g2 g3 g4 g5)
  have bld: "validate_build N (JObj kvs) = validate_build N (JObj kvs')"
    unfolding validate_build_def by (simp only: g8)
  have env: "validate_environment (JObj kvs) = validate_environment (JObj kvs')"
    unfolding validate_environment_def by (simp only: g7)
  have vrd: "validate_verdict (JObj kvs) = validate_verdict (JObj kvs')"
    unfolding validate_verdict_def by (simp only: g9)
  have scp: "validate_scope_results (JObj kvs) = validate_scope_results (JObj kvs')"
    unfolding validate_scope_results_def by (simp only: g10)
  have evd: "validate_evidence_urls (JObj kvs) = validate_evidence_urls (JObj kvs')"
    unfolding validate_evidence_urls_def by (simp only: g11)
  have "failing_verdict (JObj kvs') = failing_verdict (JObj kvs)"
    unfolding failing_verdict_def by (simp only: g9)
  with c have "validate_failure_fields (JObj kvs) = None" "validate_failure_fields (JObj kvs') = None"
    by (simp_all add: validate_failure_fields_None)
  then show "accepted (validateEvent N (JObj kvs)) = accepted (validateEvent N (JObj kvs'))"
    using g6 by (simp add: accepted_iff idn bld env vrd scp evd)
qed

theorem fail_blocked_requirements_witness:
  "failing_verdict fail_payload \<and> \<not> failure_fields_given fail_payload \<and>
   \<not> accepted (validateEvent (Number_of example_platform) fail_payload) \<and>
   post_v2_events example_platform example_env (example_forge ''abc1234def'' [] (Inr ()))
       (example_request fail_payload) empty_state =
     (JsonResponse 400
        (JObj [(''error'', JStr ''severity is required for FAIL/BLOCKED and must be P0|P1|P2|P3'')]),
      empty_state) \<and>
   failing_verdict fail_payload_array_severity \<and> failure_fields_given fail_payload_array_severity \<and>
   validate_failure_fields fail_payload_array_severity = None \<and>
   \<not> failing_verdict example_payload \<and>
   accepted (validateEvent (Number_of example_platform) example_payload) \<and>
   accepted (validateEvent (Number_of example_platform)
     (JObj [(''event_id'', JStr ''evt-00000001''), (''repo'', JStr ''acme/web''),
           (''issue_number'', JNum 42), (''role'', JStr ''QA''), (''agent'', JStr ''qa-bot''),
           (''event_type'', JStr ''qa.result_submitted''), (''overall_verdict'', JStr ''PASS''),
           (''build'', JObj [(''pr'', JNum 7), (''commit_sha'', JStr ''abc1234def'')]),
           (''severity'', JStr ''P9''), (''actual'', JNum 1)]))"
proof -
  have auth: "requireAuth (example_request fail_payload) example_env = None"
    by (simp add: requireAuth_def example_request_def example_env_def)
  have body: "req_json (example_request fail_payload) = Some fail_payload"
    by (simp add: example_request_def)
  have f: "failing_verdict fail_payload" "\<not> failure_fields_given fail_payload"
    by (simp_all add: failing_verdict_def failure_fields_given_def severity_given_def fail_payload_def)
  have v: "validateEvent (Number_of example_platform) fail_payload =
      Rejected ''severity is required for FAIL/BLOCKED and must be P0|P1|P2|P3''"
    by code_simp
  then have ret: "returns (validateEvent (Number_of example_platform) fail_payload)"
    by (simp add: returns_def)
  have pre: "passes_earlier_checks (Number_of example_platform) fail_payload"
    by code_simp
  have ns: "\<not> severity_given fail_payload"
    by (simp add: severity_given_def fail_payload_def)
  have g: "failing_verdict fail_payload_array_severity" "failure_fields_given fail_payload_array_severity"
    by code_simp+
  have nf: "\<not> failing_verdict example_payload"
    by (simp add: failing_verdict_def example_payload_def)
  have acc: "accepted (validateEvent (Number_of example_platform) example_payload)"
    by code_simp
  note t = fail_blocked_requirements[OF auth body, where P = example_platform
      and F = "example_forge ''abc1234def'' [] (Inr ())" and st = empty_state
      and N = "Number_of example_platform"
      and kvs = "[(''event_id'', JStr ''evt-00000001''), (''repo'', JStr ''acme/web''),
           (''issue_number'', JNum 42), (''role'', JStr ''QA''), (''agent'', JStr ''qa-bot''),
           (''event_type'', JStr ''qa.result_submitted''), (''overall_verdict'', JStr ''PASS''),
           (''build'', JObj [(''pr'', JNum 7), (''commit_sha'', JStr ''abc1234def'')])]"
      and kvs' = "[(''event_id'', JStr ''evt-00000001''), (''repo'', JStr ''acme/web''),
           (''issue_number'', JNum 42), (''role'', JStr ''QA''), (''agent'', JStr ''qa-bot''),
           (''event_type'', JStr ''qa.result_submitted''), (''overall_verdict'', JStr ''PASS''),
           (''build'', JObj [(''pr'', JNum 7), (''commit_sha'', JStr ''abc1234def'')]),
           (''severity'', JStr ''P9''), (''actual'', JNum 1)]"]
  from t f ret pre ns have
    a1: "\<not> accepted (validateEvent (Number_of example_platform) fail_payload)" and
    a2: "snd (post_v2_events example_platform example_env (example_forge ''abc1234def'' [] (Inr ()))
       (example_request fail_payload) empty_state) = empty_state" and
    a3: "\<exists>message. validateEvent (Number_of example_platform) fail_payload = Rejected message \<and>
           fst (post_v2_events example_platform example_env (example_forge ''abc1234def'' [] (Inr ()))
             (example_request fail_payload) empty_state) = JsonResponse 400 (JObj [(''error'', JStr message)])" and
    a4: "validateEvent (Number_of example_platform) fail_payload =
           Rejected ''severity is required for FAIL/BLOCKED and must be P0|P1|P2|P3''"
    by blast+
  from a3 a4 have a5: "fst (post_v2_events example_platform example_env (example_forge ''abc1234def'' [] (Inr ()))
             (example_request fail_payload) empty_state) =
       JsonResponse 400 (JObj [(''error'', JStr ''severity is required for FAIL/BLOCKED and must be P0|P1|P2|P3'')])"
    by auto
  have a6: "accepted (validateEvent (Number_of example_platform)
     (JObj [(''event_id'', JStr ''evt-00000001''), (''repo'', JStr ''acme/web''),
           (''issue_number'', JNum 42), (''role'', JStr ''QA''), (''agent'', JStr ''qa-bot''),
           (''event_type'', JStr ''qa.result_submitted''), (''overall_verdict'', JStr ''PASS''),
           (''build'', JObj [(''pr'', JNum 7), (''commit_sha'', JStr ''abc1234def'')]),
           (''severity'', JStr ''P9''), (''actual'', JNum 1)]))"
    using t nf acc by (simp add: example_payload_def schema_fields_def failing_verdict_def)
  have auth2: "requireAuth (example_request fail_payload_array_severity) example_env = None"
    by (simp add: requireAuth_def example_request_def example_env_def)
  have body2: "req_json (example_request fail_payload_array_severity) = Some fail_payload_array_severity"
    by (simp add: example_request_def)
  have a7: "validate_failure_fields fail_payload_array_severity = None"
    using fail_blocked_requirements[OF auth2 body2, where kvs = "[]" and kvs' = "[]"] g
    by blast
  from f a1 a2 a5 g a7 nf acc a6 show ?thesis
    by (simp add: prod_eq_iff)
qed

section \<open>The rendered comment\<close>

text \<open>
  C8.  Whatever its input, the rendered body is the marker, a line feed and the rest
  of the template, and the marker contains no line feed: the first line of the body is
  the marker \<^verbatim>\<open><!-- RELAY_STATUS v2 -->\<close>.
\<close>

theorem render_begins_with_marker:
  "(\<exists>rest. renderRelayStatusMarkdown input = RELAY_STATUS_MARKER @ CHR 0x0A # rest) \<and>
   takeWhile (\<lambda>c. c \<noteq> CHR 0x0A) (renderRelayStatusMarkdown input) = RELAY_STATUS_MARKER \<and>
   RELAY_STATUS_MARKER = ''<!-- RELAY_STATUS v2 -->''"
proof -
  obtain rest where r: "renderRelayStatusMarkdown input = RELAY_STATUS_MARKER @ CHR 0x0A # rest"
    by (simp add: renderRelayStatusMarkdown_def Let_def)
  have "takeWhile (\<lambda>c. c \<noteq> CHR 0x0A) (RELAY_STATUS_MARKER @ CHR 0x0A # rest) = RELAY_STATUS_MARKER"
    by (simp add: RELAY_STATUS_MARKER_def)
  with r show ?thesis
    by (simp add: RELAY_STATUS_MARKER_def)
qed

text \<open>
  C9.  The renderer reads its seven inputs and nothing else (no clock, no store, no
  request): two invocations whose issue, repo, issue number, provenance record, latest
  dev event, latest qa event and recent-activity list are equal produce the same
  string.
\<close>

theorem render_pure:
  assumes "in_issue a = in_issue b" and "in_repo a = in_repo b"
    and "in_issueNumber a = in_issueNumber b" and "in_provenance a = in_provenance b"
    and "in_latestDev a = in_latestDev b" and "in_latestQa a = in_latestQa b"
    and "in_recent a = in_recent b"
  shows "renderRelayStatusMarkdown a = renderRelayStatusMarkdown b"
proof -
  have "a = b"
    using assms by (intro render_input.equality) simp_all
  then show ?thesis by simp
qed

theorem render_pure_witness:
  "renderRelayStatusMarkdown example_input =
   renderRelayStatusMarkdown
     \<lparr> in_issue = \<lparr> labels = Some [LObj (Some ''status:qa''), LObj (Some ''prio:P1'')],
                     assignees = Some [\<lparr> login = Some ''octocat'' \<rparr>], assignee = None \<rparr>,
       in_repo = ''acme/web'', in_issueNumber = 42,
       in_provenance = \<lparr> prov_pr = Some 7, prov_commit = Some ''abc1234def'', prov_verified = Some False,
                         prov_prHead = Some ''ffffffffff'', prov_environment = None \<rparr>,
       in_latestDev = None, in_latestQa = Some example_event, in_recent = [] \<rparr>"
  by (rule render_pure) (simp_all add: example_input_def example_issue_def)

section \<open>The rolling comment upsert\<close>

subsection \<open>Single steps\<close>

lemma update_ok:
  "update_reply F (calls st) rp cid b = Inr u \<Longrightarrow>
   updateIssueComment F tok rp cid b st = (Return (), sent (UpdateComment tok rp cid b) st)"
  by (simp add: updateIssueComment_def)

lemma update_failed:
  "update_reply F (calls st) rp cid b = Inl r \<Longrightarrow>
   updateIssueComment F tok rp cid b st =
     (Throw (http_error ''GitHub update comment error: '' r), sent (UpdateComment tok rp cid b) st)"
  by (simp add: updateIssueComment_def)

lemma put_mapping_eq: "put_mapping P rp n cid st = mapped_to P rp n cid st"
  by (simp add: put_mapping_def mapped_to_def nowIso_def)

lemma touch_mapping_eq:
  "relay_status_comment st (rp, n) = Some (cid, t0) \<Longrightarrow> touch_mapping P rp n st = mapped_to P rp n cid st"
  by (simp add: touch_mapping_def mapped_to_def nowIso_def)

lemma str_includes_iff: "str_includes s t \<longleftrightarrow> (\<exists>pre post. s = pre @ t @ post)"
proof (induction s)
  case Nil
  show ?case by auto
next
  case (Cons x xs)
  have p: "take (length t) (x # xs) = t \<longleftrightarrow> (\<exists>post. x # xs = t @ post)"
    by (metis append_eq_conv_conj)
  show ?case
  proof
    assume "str_includes (x # xs) t"
    then consider "take (length t) (x # xs) = t" | "str_includes xs t" by auto
    then show "\<exists>pre post. x # xs = pre @ t @ post"
    proof cases
      case 1
      then obtain post where "x # xs = t @ post" using p by blast
      then have "x # xs = [] @ t @ post" by simp
      then show ?thesis by blast
    next
      case 2
      then obtain pre post where "xs = pre @ t @ post" using Cons.IH by blast
      then have "x # xs = (x # pre) @ t @ post" by simp
      then show ?thesis by blast
    qed
  next
    assume "\<exists>pre post. x # xs = pre @ t @ post"
    then obtain pre post where e: "x # xs = pre @ t @ post" by blast
    show "str_includes (x # xs) t"
    proof (cases pre)
      case Nil
      with e have "\<exists>post. x # xs = t @ post" by auto
      then show ?thesis using p by simp
    next
      case (Cons y pre')
      with e have "xs = pre' @ t @ post" by simp
      then have "str_includes xs t" using Cons.IH by blast
      then show ?thesis by simp
    qed
  qed
qed

subsection \<open>The marker scan\<close>

lemma page_calls_Suc:
  "page_calls tok rp n (Suc k) = page_calls tok rp n k @ [ListComments tok rp n 100 (Suc k)]"
  by (simp add: page_calls_def)

lemma page_calls_0 [simp]: "page_calls tok rp n 0 = []"
  by (simp add: page_calls_def)

lemma listed_Suc:
  "listed F tok rp n st (Suc k) =
     listed F tok rp n st k @ (case page_reply F tok rp n st (Suc k) of Inl r \<Rightarrow> [] | Inr cs \<Rightarrow> cs)"
  by (simp add: listed_def)

lemma listed_0 [simp]: "listed F tok rp n st 0 = []"
  by (simp add: listed_def)

lemma find_append_None: "find Q xs = None \<Longrightarrow> find Q (xs @ ys) = find Q ys"
  by (induction xs) (auto split: if_splits)

lemma scan_general:
  assumes "scan_comments F tok rp n page fnd st1 = (Return found, st')"
    and "st1 = st\<lparr>calls := calls st @ page_calls tok rp n (page - 1)\<rparr>"
    and "fnd = find has_marker (listed F tok rp n st (page - 1))"
    and "1 \<le> page" and "page \<le> 4"
    and "\<forall>p \<in> {1..page - 1}. \<exists>cs. page_reply F tok rp n st p = Inr cs"
  shows "\<exists>k. page - 1 \<le> k \<and> k \<le> 3 \<and> (page \<le> 3 \<and> fnd = None \<longrightarrow> page \<le> k) \<and>
             st' = st\<lparr>calls := calls st @ page_calls tok rp n k\<rparr> \<and>
             found = find has_marker (listed F tok rp n st k) \<and>
             (\<forall>p \<in> {1..k}. \<exists>cs. page_reply F tok rp n st p = Inr cs) \<and>
             (k = 3 \<or> found \<noteq> None \<or> (\<exists>cs. page_reply F tok rp n st k = Inr cs \<and> length cs < 100))"
  using assms
proof (induction F tok rp n page fnd st1 rule: scan_comments.induct)
  case (1 F tok rp n page fnd st1)
  show ?case
  proof (cases "page \<le> 3 \<and> fnd = None")
    case False
    with "1.prems"(1) have "found = fnd" "st' = st1"
      by (simp_all add: scan_comments.simps)
    moreover from False "1.prems"(4,5) have "page - 1 = 3 \<or> fnd \<noteq> None"
      by auto
    ultimately show ?thesis
      using "1.prems" False by (intro exI[of _ "page - 1"]) auto
  next
    case True
    obtain q where q: "page = Suc q"
      using "1.prems"(4) by (cases page) auto
    have reply: "comments_reply F (calls st1) rp n page = page_reply F tok rp n st page"
      using "1.prems"(2) by (simp add: page_reply_def)
    show ?thesis
    proof (cases "page_reply F tok rp n st page")
      case (Inl r)
      with "1.prems"(1) True reply show ?thesis
        by (simp add: scan_comments.simps listIssueComments_def)
    next
      case (Inr cs)
      have st2: "sent (ListComments tok rp n 100 page) st1 = st\<lparr>calls := calls st @ page_calls tok rp n page\<rparr>"
        using "1.prems"(2) q by (simp add: sent_def page_calls_Suc)
      have none: "find has_marker (listed F tok rp n st q) = None"
        using True "1.prems"(3) q by simp
      have fcs: "find has_marker cs = find has_marker (listed F tok rp n st page)"
        using none Inr q by (simp add: listed_Suc find_append_None)
      have li: "listIssueComments F tok rp n page st1 = (Return cs, sent (ListComments tok rp n 100 page) st1)"
        using reply Inr by (simp add: listIssueComments_def)
      have pages: "\<forall>p \<in> {1..page}. \<exists>cs. page_reply F tok rp n st p = Inr cs"
      proof
        fix p assume "p \<in> {1..page}"
        then have "p \<in> {1..page - 1} \<or> p = page" by auto
        then show "\<exists>cs. page_reply F tok rp n st p = Inr cs"
          using "1.prems"(6) Inr by auto
      qed
      show ?thesis
      proof (cases "length cs < 100")
        case short: True
        with "1.prems"(1) True li have "found = find has_marker cs" "st' = sent (ListComments tok rp n 100 page) st1"
          by (simp_all add: scan_comments.simps)
        with st2 fcs True pages Inr short show ?thesis
          by (intro exI[of _ page]) auto
      next
        case full: False
        with "1.prems"(1) True li
        have rec: "scan_comments F tok rp n (page + 1) (find has_marker cs) (sent (ListComments tok rp n 100 page) st1) = (Return found, st')"
          by (simp add: scan_comments.simps)
        have "\<exists>k. page + 1 - 1 \<le> k \<and> k \<le> 3 \<and> (page + 1 \<le> 3 \<and> find has_marker cs = None \<longrightarrow> page + 1 \<le> k) \<and>
             st' = st\<lparr>calls := calls st @ page_calls tok rp n k\<rparr> \<and>
             found = find has_marker (listed F tok rp n st k) \<and>
             (\<forall>p \<in> {1..k}. \<exists>cs. page_reply F tok rp n st p = Inr cs) \<and>
             (k = 3 \<or> found \<noteq> None \<or> (\<exists>cs. page_reply F tok rp n st k = Inr cs \<and> length cs < 100))"
          using True full li rec st2 fcs pages
          apply (intro "1.IH")
          apply auto
          done
        then obtain k where k: "page \<le> k" "k \<le> 3" "st' = st\<lparr>calls := calls st @ page_calls tok rp n k\<rparr>"
            "found = find has_marker (listed F tok rp n st k)"
            "\<forall>p \<in> {1..k}. \<exists>cs. page_reply F tok rp n st p = Inr cs"
            "k = 3 \<or> found \<noteq> None \<or> (\<exists>cs. page_reply F tok rp n st k = Inr cs \<and> length cs < 100)"
          by auto
        show ?thesis
          by (rule exI[of _ k]) (use k in auto)
      qed
    qed
  qed
qed

lemma scan_spec:
  assumes "scan_comments F tok rp n 1 None st = (Return found, st')"
  shows "\<exists>k. scanned F tok rp n st k found \<and> st' = st\<lparr>calls := calls st @ page_calls tok rp n k\<rparr>"
  using scan_general[OF assms, of st] by (auto simp: scanned_def)

subsection \<open>The three steps\<close>

lemma scan_then_create_found:
  assumes "scan_comments F tok rp n 1 None st = (Return (Some c), st1)" and "c_id c \<noteq> 0"
  shows "scan_then_create P F tok rp n b st = update_found P F tok rp n b c st1"
  using assms by (simp add: scan_then_create_def)

lemma scan_then_create_none:
  assumes "scan_comments F tok rp n 1 None st = (Return None, st1)"
  shows "scan_then_create P F tok rp n b st = create_new P F tok rp n b st1"
  using assms by (simp add: scan_then_create_def)

lemma update_found_ok:
  assumes "update_reply F (calls st) rp (show_int (c_id c)) b = Inr u"
  shows "update_found P F tok rp n b c st =
     (Return (show_int (c_id c)),
      mapped_to P rp n (show_int (c_id c)) (sent (UpdateComment tok rp (show_int (c_id c)) b) st))"
  using assms by (simp add: update_found_def Let_def update_ok put_mapping_eq)

lemma update_found_failed:
  assumes "update_reply F (calls st) rp (show_int (c_id c)) b = Inl r"
  shows "update_found P F tok rp n b c st =
     (Throw (http_error ''GitHub update comment error: '' r),
      sent (UpdateComment tok rp (show_int (c_id c)) b) st)"
  using assms by (simp add: update_found_def Let_def update_failed)

lemma create_new_ok:
  assumes "create_reply F (calls st) rp n b = Inr new_id"
  shows "create_new P F tok rp n b st =
     (Return (show_int new_id), mapped_to P rp n (show_int new_id) (sent (CreateComment tok rp n b) st))"
  using assms by (simp add: create_new_def createIssueComment_def put_mapping_eq)

lemma upsert_mapping_hit:
  assumes "relay_status_comment st (rp, n) = Some (cid, t0)" and "cid \<noteq> []"
    and "update_reply F (calls st) rp cid b = Inr u"
  shows "upsertRollingComment P F tok rp n b st =
     (Return cid, mapped_to P rp n cid (sent (UpdateComment tok rp cid b) st))"
  using assms
  by (simp add: upsertRollingComment_def update_ok touch_mapping_eq[where ?t0.0 = t0] sent_def)

lemma upsert_mapping_failed:
  assumes "relay_status_comment st (rp, n) = Some (cid, t0)" and "cid \<noteq> []"
    and "update_reply F (calls st) rp cid b = Inl r"
  shows "upsertRollingComment P F tok rp n b st =
     scan_then_create P F tok rp n b (sent (UpdateComment tok rp cid b) st)"
  using assms by (simp add: upsertRollingComment_def update_failed)

lemma upsert_no_mapping:
  assumes "relay_status_comment st (rp, n) = None"
  shows "upsertRollingComment P F tok rp n b st = scan_then_create P F tok rp n b st"
  using assms by (simp add: upsertRollingComment_def)

text \<open>
  C3.  The upsert on \<open>(rp, n)\<close> with the body \<open>b\<close>.  First: when a mapping row with a
  comment id exists, that comment is updated; on success the row gets a fresh
  \<^verbatim>\<open>updated_at\<close> and the id is returned, with no other request sent; on a failure of
  the update the upsert goes on as below, from the state after the failed request.
  Second: the comments are listed in pages of 100, pages \<open>1, \<dots>, k\<close> with \<open>k \<le> 3\<close>,
  ending at page 3, at a page with a marker comment or at a page of fewer than 100
  comments; the comment found is the first one, in the order of the listing, whose body
  contains the marker; it is updated (no comment is created), and on success the
  mapping row is written with its id, which is returned.  Third: when the scan finds
  no comment, a comment is created, and on success the mapping row is written with the
  new id, which is returned.
\<close>

theorem rolling_comment_upsert:
  "(relay_status_comment st (rp, n) = Some (cid, t0) \<and> cid \<noteq> [] \<and>
      update_reply F (calls st) rp cid b = Inr u \<longrightarrow>
        upsertRollingComment P F tok rp n b st =
          (Return cid, mapped_to P rp n cid (sent (UpdateComment tok rp cid b) st))) \<and>
   (relay_status_comment st (rp, n) = Some (cid, t0) \<and> cid \<noteq> [] \<and>
      update_reply F (calls st) rp cid b = Inl r \<longrightarrow>
        upsertRollingComment P F tok rp n b st =
          scan_then_create P F tok rp n b (sent (UpdateComment tok rp cid b) st)) \<and>
   (relay_status_comment st (rp, n) = None \<longrightarrow>
        upsertRollingComment P F tok rp n b st = scan_then_create P F tok rp n b st) \<and>
   (scan_comments F tok rp n 1 None st = (Return found, st1) \<longrightarrow>
        (\<exists>k. scanned F tok rp n st k found \<and> st1 = st\<lparr>calls := calls st @ page_calls tok rp n k\<rparr>) \<and>
        (\<forall>c. found = Some c \<longrightarrow> (\<exists>body pre post. c_body c = Some body \<and>
                 body = pre @ RELAY_STATUS_MARKER @ post))) \<and>
   (scan_comments F tok rp n 1 None st = (Return (Some c), st1) \<and> c_id c \<noteq> 0 \<longrightarrow>
        calls (snd (scan_then_create P F tok rp n b st)) =
          calls st1 @ [UpdateComment tok rp (show_int (c_id c)) b] \<and>
        (update_reply F (calls st1) rp (show_int (c_id c)) b = Inr u \<longrightarrow>
           scan_then_create P F tok rp n b st =
             (Return (show_int (c_id c)),
              mapped_to P rp n (show_int (c_id c)) (sent (UpdateComment tok rp (show_int (c_id c)) b) st1)))) \<and>
   (scan_comments F tok rp n 1 None st = (Return None, st1) \<and>
      create_reply F (calls st1) rp n b = Inr new_id \<longrightarrow>
        scan_then_create P F tok rp n b st =
          (Return (show_int new_id),
           mapped_to P rp n (show_int new_id) (sent (CreateComment tok rp n b) st1)))"
proof (intro conjI impI allI)
  assume "relay_status_comment st (rp, n) = Some (cid, t0) \<and> cid \<noteq> [] \<and>
      update_reply F (calls st) rp cid b = Inr u"
  then show "upsertRollingComment P F tok rp n b st =
          (Return cid, mapped_to P rp n cid (sent (UpdateComment tok rp cid b) st))"
    by (simp add: upsert_mapping_hit)
next
  assume "relay_status_comment st (rp, n) = Some (cid, t0) \<and> cid \<noteq> [] \<and>
      update_reply F (calls st) rp cid b = Inl r"
  then show "upsertRollingComment P F tok rp n b st =
          scan_then_create P F tok rp n b (sent (UpdateComment tok rp cid b) st)"
    by (simp add: upsert_mapping_failed)
next
  assume "relay_status_comment st (rp, n) = None"
  then show "upsertRollingComment P F tok rp n b st = scan_then_create P F tok rp n b st"
    by (rule upsert_no_mapping)
next
  assume "scan_comments F tok rp n 1 None st = (Return found, st1)"
  then show "\<exists>k. scanned F tok rp n st k found \<and> st1 = st\<lparr>calls := calls st @ page_calls tok rp n k\<rparr>"
    by (rule scan_spec)
next
  fix c'
  assume s: "scan_comments F tok rp n 1 None st = (Return found, st1)" and f: "found = Some c'"
  from scan_spec[OF s] f obtain k where "find has_marker (listed F tok rp n st k) = Some c'"
    by (auto simp: scanned_def)
  then have "has_marker c'"
    by (auto simp: find_Some_iff)
  then show "\<exists>body pre post. c_body c' = Some body \<and> body = pre @ RELAY_STATUS_MARKER @ post"
    by (auto simp: has_marker_def str_includes_iff split: option.splits)
next
  assume a: "scan_comments F tok rp n 1 None st = (Return (Some c), st1) \<and> c_id c \<noteq> 0"
  then have e: "scan_then_create P F tok rp n b st = update_found P F tok rp n b c st1"
    by (simp add: scan_then_create_found)
  show "calls (snd (scan_then_create P F tok rp n b st)) =
          calls st1 @ [UpdateComment tok rp (show_int (c_id c)) b]"
    by (cases "update_reply F (calls st1) rp (show_int (c_id c)) b")
       (simp_all add: e update_found_ok update_found_failed mapped_to_def sent_def)
  assume "update_reply F (calls st1) rp (show_int (c_id c)) b = Inr u"
  then show "scan_then_create P F tok rp n b st =
             (Return (show_int (c_id c)),
              mapped_to P rp n (show_int (c_id c)) (sent (UpdateComment tok rp (show_int (c_id c)) b) st1))"
    by (simp add: e update_found_ok)
next
  assume "scan_comments F tok rp n 1 None st = (Return None, st1) \<and>
      create_reply F (calls st1) rp n b = Inr new_id"
  then show "scan_then_create P F tok rp n b st =
          (Return (show_int new_id),
           mapped_to P rp n (show_int new_id) (sent (CreateComment tok rp n b) st1))"
    by (simp add: scan_then_create_none create_new_ok)
qed

lemma example_scan:
  "scan_comments (example_forge h [marker_comment] upd) tok rp n 1 None st =
     (Return (Some marker_comment), sent (ListComments tok rp n 100 1) st)"
  by (simp add: scan_comments.simps listIssueComments_def example_forge_def has_marker_def
      marker_comment_def RELAY_STATUS_MARKER_def)

lemma example_scan_empty:
  "scan_comments (example_forge h [] upd) tok rp n 1 None st =
     (Return None, sent (ListComments tok rp n 100 1) st)"
  by (simp add: scan_comments.simps listIssueComments_def example_forge_def)

lemma show_int_555: "show_int 555 = ''555''" and show_int_9001: "show_int 9001 = ''9001''"
  by (simp_all add: show_int_def digits.simps)

theorem rolling_comment_upsert_witness:
  "upsertRollingComment example_platform (example_forge ''abc1234def'' [marker_comment] (Inr ()))
      ''tok'' ''acme/web'' 42 ''body'' mapped_state =
     (Return ''111'',
      mapped_to example_platform ''acme/web'' 42 ''111''
        (sent (UpdateComment ''tok'' ''acme/web'' ''111'' ''body'') mapped_state)) \<and>
   upsertRollingComment example_platform (example_forge ''abc1234def'' [marker_comment] (Inr ()))
      ''tok'' ''acme/web'' 42 ''body'' empty_state =
     (Return ''555'',
      mapped_to example_platform ''acme/web'' 42 ''555''
        (sent (UpdateComment ''tok'' ''acme/web'' ''555'' ''body'')
           (sent (ListComments ''tok'' ''acme/web'' 42 100 1) empty_state))) \<and>
   upsertRollingComment example_platform (example_forge ''abc1234def'' [] (Inr ()))
      ''tok'' ''acme/web'' 42 ''body'' empty_state =
     (Return ''9001'',
      mapped_to example_platform ''acme/web'' 42 ''9001''
        (sent (CreateComment ''tok'' ''acme/web'' 42 ''body'')
           (sent (ListComments ''tok'' ''acme/web'' 42 100 1) empty_state)))"
proof -
  let ?F = "example_forge ''abc1234def'' [marker_comment] (Inr ())"
  let ?G = "example_forge ''abc1234def'' [] (Inr ())"
  let ?st1 = "sent (ListComments ''tok'' ''acme/web'' 42 100 1) empty_state"
  have m: "relay_status_comment mapped_state (''acme/web'', 42) = Some (''111'', ''2025-12-31T23:59:59Z'')"
    by (simp add: mapped_state_def)
  have u: "update_reply ?F (calls mapped_state) ''acme/web'' ''111'' ''body'' = Inr ()"
    by (simp add: example_forge_def)
  have e: "relay_status_comment empty_state (''acme/web'', 42) = None"
    by (simp add: empty_state_def)
  have c: "c_id marker_comment \<noteq> 0" "show_int (c_id marker_comment) = ''555''"
    by (simp_all add: marker_comment_def show_int_555)
  have u2: "update_reply ?F (calls ?st1) ''acme/web'' (show_int (c_id marker_comment)) ''body'' = Inr ()"
    by (simp add: example_forge_def)
  have cr: "create_reply ?G (calls ?st1) ''acme/web'' 42 ''body'' = Inr 9001"
    by (simp add: example_forge_def)
  note t1 = rolling_comment_upsert[where P = example_platform and F = ?F and tok = "''tok''"
      and rp = "''acme/web''" and n = 42 and b = "''body''" and st = mapped_state and cid = "''111''"
      and ?t0.0 = "''2025-12-31T23:59:59Z''" and u = "()"]
  note t2 = rolling_comment_upsert[where P = example_platform and F = ?F and tok = "''tok''"
      and rp = "''acme/web''" and n = 42 and b = "''body''" and st = empty_state
      and c = marker_comment and ?st1.0 = ?st1 and u = "()"]
  note t3 = rolling_comment_upsert[where P = example_platform and F = ?G and tok = "''tok''"
      and rp = "''acme/web''" and n = 42 and b = "''body''" and st = empty_state
      and ?st1.0 = ?st1 and new_id = 9001]
  have "upsertRollingComment example_platform ?F ''tok'' ''acme/web'' 42 ''body'' mapped_state =
     (Return ''111'', mapped_to example_platform ''acme/web'' 42 ''111''
        (sent (UpdateComment ''tok'' ''acme/web'' ''111'' ''body'') mapped_state))"
    using t1 m u by simp
  moreover have "upsertRollingComment example_platform ?F ''tok'' ''acme/web'' 42 ''body'' empty_state =
     (Return ''555'', mapped_to example_platform ''acme/web'' 42 ''555''
        (sent (UpdateComment ''tok'' ''acme/web'' ''555'' ''body'') ?st1))"
    using t2 e c u2 example_scan[of "''abc1234def''" "Inr ()" "''tok''" "''acme/web''" 42 empty_state] by simp
  moreover have "upsertRollingComment example_platform ?G ''tok'' ''acme/web'' 42 ''body'' empty_state =
     (Return ''9001'', mapped_to example_platform ''acme/web'' 42 ''9001''
        (sent (CreateComment ''tok'' ''acme/web'' 42 ''body'') ?st1))"
    using t3 e cr example_scan_empty[of "''abc1234def''" "Inr ()" "''tok''" "''acme/web''" 42 empty_state] by (simp add: show_int_9001)
  ultimately show ?thesis by simp
qed

subsection \<open>A failed update\<close>

lemma publish_upsert_throw:
  assumes "getIssueDetails F tok (repo ev) (issue_number ev) st = (Return i, st3)"
    and "upsertRollingComment P F tok (repo ev) (issue_number ev) (status_body P ev pv hs i st3) st3 = (Throw m, st4)"
  shows "publish P E F tok ev eff pv hs st = (Throw m, st4)"
  using assms by (simp add: publish_def)

text \<open>
  C5, as the code has it.  A failed update of the comment of the mapping row does not
  end the upsert: it goes on with the marker scan, from the state after the failed
  request.  A failed update of the comment that the marker scan found is not caught:
  the upsert raises the error of the forge, the pipeline raises it in turn, and the
  route answers 500 with the message as \<^verbatim>\<open>details\<close>.
\<close>

theorem update_failure_in_upsert:
  "(relay_status_comment st (rp, n) = Some (cid, t0) \<and> cid \<noteq> [] \<and>
      update_reply F (calls st) rp cid b = Inl r \<longrightarrow>
        upsertRollingComment P F tok rp n b st =
          scan_then_create P F tok rp n b (sent (UpdateComment tok rp cid b) st)) \<and>
   (scan_comments F tok rp n 1 None st = (Return (Some c), st1) \<and> c_id c \<noteq> 0 \<and>
      update_reply F (calls st1) rp (show_int (c_id c)) b = Inl r \<longrightarrow>
        scan_then_create P F tok rp n b st =
          (Throw (http_error ''GitHub update comment error: '' r),
           sent (UpdateComment tok rp (show_int (c_id c)) b) st1)) \<and>
   (getIssueDetails F tok (repo ev) (issue_number ev) st = (Return i, st3) \<and>
      upsertRollingComment P F tok (repo ev) (issue_number ev) (status_body P ev pv hs i st3) st3 = (Throw m, st4) \<longrightarrow>
        publish P E F tok ev eff pv hs st = (Throw m, st4)) \<and>
   (handlePostEvents P E F req st = (Throw m, st') \<longrightarrow>
        post_v2_events P E F req st =
          (JsonResponse 500
             (JObj [(''error'', JStr ''Internal error''),
                    (''details'', JStr (if m \<noteq> [] then m else ''Error''))]), st'))"
  by (simp add: upsert_mapping_failed scan_then_create_found update_found_failed publish_upsert_throw
      post_v2_events_def)

theorem update_failure_in_upsert_witness:
  "upsertRollingComment example_platform (example_forge ''abc1234def'' [marker_comment] bad_gateway)
      ''tok'' ''acme/web'' 42 ''body'' mapped_state =
     (Throw ''GitHub update comment error: 502 bad gateway'',
      sent (UpdateComment ''tok'' ''acme/web'' ''555'' ''body'')
        (sent (ListComments ''tok'' ''acme/web'' 42 100 1)
           (sent (UpdateComment ''tok'' ''acme/web'' ''111'' ''body'') mapped_state)))"
proof -
  let ?F = "example_forge ''abc1234def'' [marker_comment] bad_gateway"
  let ?st0 = "sent (UpdateComment ''tok'' ''acme/web'' ''111'' ''body'') mapped_state"
  let ?st1 = "sent (ListComments ''tok'' ''acme/web'' 42 100 1) ?st0"
  have m: "relay_status_comment mapped_state (''acme/web'', 42) = Some (''111'', ''2025-12-31T23:59:59Z'')"
    by (simp add: mapped_state_def)
  have u: "update_reply ?F (calls mapped_state) ''acme/web'' ''111'' ''body'' = Inl (502, ''bad gateway'')"
    by (simp add: example_forge_def bad_gateway_def)
  have c: "c_id marker_comment \<noteq> 0" "show_int (c_id marker_comment) = ''555''"
    by (simp_all add: marker_comment_def show_int_555)
  have u2: "update_reply ?F (calls ?st1) ''acme/web'' (show_int (c_id marker_comment)) ''body'' = Inl (502, ''bad gateway'')"
    by (simp add: example_forge_def bad_gateway_def)
  have h: "http_error ''GitHub update comment error: '' (502, ''bad gateway'') =
        ''GitHub update comment error: 502 bad gateway''"
    by (simp add: http_error_def digits.simps)
  note t1 = update_failure_in_upsert[where P = example_platform and F = ?F and tok = "''tok''"
      and rp = "''acme/web''" and n = 42 and b = "''body''" and st = mapped_state and cid = "''111''"
      and ?t0.0 = "''2025-12-31T23:59:59Z''" and r = "(502, ''bad gateway'')"]
  note t2 = update_failure_in_upsert[where P = example_platform and F = ?F and tok = "''tok''"
      and rp = "''acme/web''" and n = 42 and b = "''body''" and st = ?st0
      and c = marker_comment and ?st1.0 = ?st1 and r = "(502, ''bad gateway'')"]
  from t1 m u have "upsertRollingComment example_platform ?F ''tok'' ''acme/web'' 42 ''body'' mapped_state =
      scan_then_create example_platform ?F ''tok'' ''acme/web'' 42 ''body'' ?st0"
    by simp
  moreover from t2 c u2 example_scan[of "''abc1234def''" bad_gateway "''tok''" "''acme/web''" 42 ?st0]
  have "scan_then_create example_platform ?F ''tok'' ''acme/web'' 42 ''body'' ?st0 =
      (Throw ''GitHub update comment error: 502 bad gateway'',
       sent (UpdateComment ''tok'' ''acme/web'' ''555'' ''body'') ?st1)"
    by (simp add: h)
  ultimately show ?thesis by simp
qed

section \<open>Label transitions\<close>

lemma set_set_add [simp]: "set (set_add s a) = insert a (set s)"
  by (auto simp: set_add_def list_ex_iff same_value_def)

lemma set_foldl_set_add [simp]: "set (foldl set_add s xs) = set s \<union> set xs"
  by (induction xs arbitrary: s) auto











section \<open>The events handler\<close>

subsection \<open>What the steps after the insertion leave untouched\<close>

lemma events_sent [simp]: "events (sent c st) = events st"
  and ticks_sent [simp]: "ticks (sent c st) = ticks st"
  and mapping_sent [simp]: "relay_status_comment (sent c st) = relay_status_comment st"
  and calls_sent [simp]: "calls (sent c st) = calls st @ [c]"
  by (simp_all add: sent_def)

lemma events_mapped_to [simp]: "events (mapped_to P rp n cid st) = events st"
  by (simp add: mapped_to_def)

lemma events_getIssueDetails [simp]: "events (snd (getIssueDetails F tok rp n st)) = events st"
  by (simp add: getIssueDetails_def split: sum.splits)

lemma events_updateIssueComment [simp]: "events (snd (updateIssueComment F tok rp cid b st)) = events st"
  by (simp add: updateIssueComment_def split: sum.splits)

lemma events_createIssueComment [simp]: "events (snd (createIssueComment F tok rp n b st)) = events st"
  by (simp add: createIssueComment_def split: sum.splits)

lemma events_putIssueLabels [simp]: "events (snd (putIssueLabels F tok rp n ls st)) = events st"
  by (simp add: putIssueLabels_def split: sum.splits)

lemma events_listIssueComments [simp]: "events (snd (listIssueComments F tok rp n p st)) = events st"
  by (simp add: listIssueComments_def split: sum.splits)

lemma events_scan_comments [simp]: "events (snd (scan_comments F tok rp n page fnd st)) = events st"
proof (induction F tok rp n page fnd st rule: scan_comments.induct)
  case (1 F tok rp n page fnd st)
  show ?case
  proof (cases "listIssueComments F tok rp n page st")
    case (Pair res st1)
    have e: "events st1 = events st"
      using events_listIssueComments[of F tok rp n page st] Pair by simp
    show ?thesis
    proof (cases res)
      case (Throw m)
      with Pair e show ?thesis
        by (simp add: scan_comments.simps)
    next
      case (Return cs)
      show ?thesis
      proof (cases "page \<le> 3 \<and> fnd = None")
        case False
        then show ?thesis by (auto simp: scan_comments.simps)
      next
        case True
        show ?thesis
        proof (cases "length cs < 100")
          case short: True
          with True Pair Return e show ?thesis
            by (simp add: scan_comments.simps)
        next
          case full: False
          have "events (snd (scan_comments F tok rp n (page + 1) (find has_marker cs) st1)) = events st1"
            using True Pair Return full by (intro "1.IH") auto
          with True Pair Return full e show ?thesis
            by (simp add: scan_comments.simps)
        qed
      qed
    qed
  qed
qed

lemma events_update_found [simp]: "events (snd (update_found P F tok rp n b c st)) = events st"
proof (cases "updateIssueComment F tok rp (show_int (c_id c)) b st")
  case (Pair res st1)
  with events_updateIssueComment[of F tok rp "show_int (c_id c)" b st] show ?thesis
    by (cases res) (simp_all add: update_found_def Let_def put_mapping_eq)
qed

lemma events_create_new [simp]: "events (snd (create_new P F tok rp n b st)) = events st"
proof (cases "createIssueComment F tok rp n b st")
  case (Pair res st1)
  with events_createIssueComment[of F tok rp n b st] show ?thesis
    by (cases res) (simp_all add: create_new_def put_mapping_eq)
qed

lemma events_scan_then_create [simp]: "events (snd (scan_then_create P F tok rp n b st)) = events st"
proof (cases "scan_comments F tok rp n 1 None st")
  case (Pair res st1)
  from Pair have "st1 = snd (scan_comments F tok rp n 1 None st)"
    by (simp only: snd_conv)
  then have e: "events st1 = events st"
    by (simp only: events_scan_comments)
  show ?thesis
  proof (cases res)
    case (Throw m)
    with Pair e show ?thesis by (simp add: scan_then_create_def)
  next
    case (Return found)
    with Pair e show ?thesis
      by (cases found) (simp_all add: scan_then_create_def)
  qed
qed

lemma events_upsert [simp]: "events (snd (upsertRollingComment P F tok rp n b st)) = events st"
proof (cases "relay_status_comment st (rp, n)")
  case None
  then show ?thesis by (simp add: upsert_no_mapping)
next
  case (Some row)
  obtain cid t0 where row: "row = (cid, t0)" by (cases row)
  show ?thesis
  proof (cases "cid = []")
    case True
    with Some row show ?thesis by (simp add: upsertRollingComment_def)
  next
    case False
    show ?thesis
    proof (cases "update_reply F (calls st) rp cid b")
      case (Inl r)
      with Some row False show ?thesis by (simp add: upsert_mapping_failed)
    next
      case (Inr u)
      with Some row False show ?thesis by (simp add: upsert_mapping_hit)
    qed
  qed
qed

lemma events_applyLabelRules [simp]: "events (snd (applyLabelRules P E F tok rp n T V st)) = events st"
proof (cases "getIssueDetails F tok rp n st")
  case (Pair res st1)
  have e: "events st1 = events st"
    using events_getIssueDetails[of F tok rp n st] Pair by simp
  show ?thesis
    using Pair e
    by (cases res) (simp_all add: applyLabelRules_def split: option.splits)
qed

lemma events_publish [simp]: "events (snd (publish P E F tok ev eff pv hs st)) = events st"
proof (cases "getIssueDetails F tok (repo ev) (issue_number ev) st")
  case (Pair res st3)
  have e3: "events st3 = events st"
    using events_getIssueDetails[of F tok "repo ev" "issue_number ev" st] Pair by simp
  show ?thesis
  proof (cases res)
    case (Throw m)
    with Pair e3 show ?thesis by (simp add: publish_def)
  next
    case (Return i)
    show ?thesis
    proof (cases "upsertRollingComment P F tok (repo ev) (issue_number ev) (status_body P ev pv hs i st3) st3")
      case up: (Pair res4 st4)
      have e4: "events st4 = events st"
        using events_upsert[of P F tok "repo ev" "issue_number ev" "status_body P ev pv hs i st3" st3] up e3
        by simp
      show ?thesis
      proof (cases res4)
        case (Throw m)
        with Pair Return up e4 show ?thesis by (simp add: publish_def)
      next
        case ret: (Return commentId)
        show ?thesis
        proof (cases "applyLabelRules P E F tok (repo ev) (issue_number ev) (event_type ev) eff st4")
          case lb: (Pair res5 st5)
          have e5: "events st5 = events st"
            using events_applyLabelRules[of P E F tok "repo ev" "issue_number ev" "event_type ev" eff st4] lb e4
            by simp
          show ?thesis
            using Pair Return up ret lb e5
            by (cases res5) (simp_all add: publish_def)
        qed
      qed
    qed
  qed
qed

lemma publish_response:
  assumes "fst (publish P E F tok ev eff pv hs st) = Return resp"
  shows "status_of resp = 201 \<and> response_field resp ''event_id'' = Some (JStr (event_id ev)) \<and>
         response_field resp ''verdict'' = map_option prim_json eff \<and>
         response_field resp ''provenance_verified'' = Some (case pv of None \<Rightarrow> JNull | Some v \<Rightarrow> JBool v)"
  using assms
  by (auto simp: publish_def opt_field_def split: prod.splits result.splits option.splits)

subsection \<open>The steps of the handler\<close>

lemma token_ok:
  assumes "createAppJwt P = Return appJwt" and "access_token_reply F (calls st) = Inr ghToken"
  shows "getInstallationToken P F st = (Return ghToken, sent (CreateAccessToken appJwt) st)"
  using assms by (simp add: getInstallationToken_def)

lemma validate_build_Some:
  assumes "validate_build N e = Inr (Some b)"
  shows "commit_sha b \<noteq> [] \<and> (\<forall>n. pr b = Some n \<longrightarrow> n \<noteq> 0)"
  using assms
  by (auto simp: validate_build_def Let_def split: option.split_asm if_split_asm result.split_asm)

lemma provenance_checked:
  assumes "build ev = Some b" and "pr b = Some n" and "n \<noteq> 0" and "commit_sha b \<noteq> []"
    and "pull_reply F (calls st) (repo ev) n = Inr head"
  shows "check_provenance F tok ev st =
     (Return (Some (toLowerCase (case head of None \<Rightarrow> [] | Some h \<Rightarrow> h) = toLowerCase (commit_sha b)),
              Some (toLowerCase (case head of None \<Rightarrow> [] | Some h \<Rightarrow> h))),
      sent (GetPull tok (repo ev) n) st)"
  using assms by (simp add: check_provenance_def getPullRequestHeadSha_def)

lemma provenance_absent:
  assumes "build ev = None \<or> (\<exists>b. build ev = Some b \<and> pr b = None)"
  shows "check_provenance F tok ev st = (Return (None, None), st)"
  using assms by (auto simp: check_provenance_def)

lemma downgrade_eq: "downgrade v x = effective_verdict v x"
  by (simp add: downgrade_def effective_verdict_def)

lemma handle_validated:
  assumes "requireAuth req E = None" and "req_json req = Some payload"
    and "validateEvent (Number_of P) payload = Accepted ev"
  shows "handlePostEvents P E F req st =
     (case stored_row st (event_id ev) of
        Some existing \<Rightarrow>
          if row_payload_hash existing \<noteq> sha256Hex P (stringify (event_json ev)) then
            (Return (conflict ''event_id already exists with different payload''
                       (JObj [(''event_id'', JStr (event_id ev)),
                              (''existing_hash'', JStr (row_payload_hash existing)),
                              (''new_hash'', JStr (sha256Hex P (stringify (event_json ev))))])), st)
          else
            (Return (JsonResponse 200
                       (JObj [(''ok'', JBool True), (''idempotent'', JBool True),
                              (''event_id'', JStr (event_id ev))])), st)
      | None \<Rightarrow> ingest P E F ev (stringify (event_json ev)) (sha256Hex P (stringify (event_json ev))) st)"
  using assms by (simp add: handlePostEvents_def stored_row_def Let_def)

text \<open>The row that the handler inserts for an event and an effective verdict.\<close>

lemma events_insert_event:
  "events (insert_event P ev eff h j st) =
     events st @
       [\<lparr> row_event_id = event_id ev, row_repo = repo ev, row_issue_number = issue_number ev,
           row_event_type = event_type ev, row_role = role ev, row_agent = agent ev,
           row_environment = environment ev, row_overall_verdict = verdict_column eff,
           row_created_at = clock P (ticks st), row_payload_hash = h, row_payload_json = j \<rparr>]"
  by (simp add: insert_event_def nowIso_def verdict_column_def)

lemma ingest_run:
  assumes "createAppJwt P = Return appJwt" and "access_token_reply F (calls st) = Inr ghToken"
    and "check_provenance F ghToken ev (sent (CreateAccessToken appJwt) st) = (Return (pv, hs), st1)"
  shows "ingest P E F ev j h st =
     publish P E F ghToken ev
       (case pv of None \<Rightarrow> overall_verdict ev | Some v \<Rightarrow> effective_verdict v (overall_verdict ev)) pv hs
       (insert_event P ev
          (case pv of None \<Rightarrow> overall_verdict ev | Some v \<Rightarrow> effective_verdict v (overall_verdict ev))
          h j st1)"
  using assms by (cases pv) (simp_all add: ingest_def token_ok downgrade_eq Let_def)

lemma find_snoc: "find Q xs = None \<Longrightarrow> Q r \<Longrightarrow> find Q (xs @ [r]) = Some r"
  by (induction xs) (auto split: if_splits)

lemma check_provenance_frame:
  assumes "check_provenance F tok ev st = (res, st1)"
  shows "events st1 = events st \<and> ticks st1 = ticks st"
  using assms
  by (auto simp: check_provenance_def getPullRequestHeadSha_def
      split: option.split_asm if_split_asm sum.split_asm)

lemma stored_after_publish:
  assumes "stored_row st (event_id ev) = None" and "events st1 = events st" and "ticks st1 = ticks st"
  shows "stored_row (snd (publish P E F tok ev eff pv hs (insert_event P ev eff' h j st1))) (event_id ev) =
     Some \<lparr> row_event_id = event_id ev, row_repo = repo ev, row_issue_number = issue_number ev,
            row_event_type = event_type ev, row_role = role ev, row_agent = agent ev,
            row_environment = environment ev, row_overall_verdict = verdict_column eff',
            row_created_at = clock P (ticks st), row_payload_hash = h, row_payload_json = j \<rparr>"
  using assms by (simp add: stored_row_def events_insert_event find_snoc)

subsection \<open>Provenance and the effective verdict\<close>

text \<open>
  C1.  An authenticated request carries a payload that is validated to \<open>event\<close>, no row
  has its event id, and the token is minted.  The verdict of the event is the caller's:
  the value of \<^verbatim>\<open>overall_verdict\<close> in the payload.  When the event has \<^verbatim>\<open>build.pr\<close> (and
  with it \<^verbatim>\<open>build.commit_sha\<close>) and the forge answers the request for the pull
  request with the head \<open>head\<close>: the head is fetched and compared, both sides in lower
  case, with the reported commit; the row that is stored has the caller's verdict,
  with PASS turned into PASS_UNVERIFIED when the comparison fails; and the response,
  when the handler returns one, is 201 with the same verdict and with the result of
  the comparison as \<^verbatim>\<open>provenance_verified\<close>.  When the event has no build or no
  \<^verbatim>\<open>build.pr\<close>, the stored and the returned verdict are the caller's and
  \<^verbatim>\<open>provenance_verified\<close> is \<^verbatim>\<open>null\<close>.
\<close>

theorem provenance_downgrade:
  assumes auth: "requireAuth req E = None" and body: "req_json req = Some payload"
    and valid: "validateEvent (Number_of P) payload = Accepted event"
    and new: "stored_row st (event_id event) = None"
    and jwt: "createAppJwt P = Return appJwt" and tok: "access_token_reply F (calls st) = Inr ghToken"
  shows
    "map_option prim_json (overall_verdict event) = jsGet payload ''overall_verdict'' \<and>
     (build event = Some b \<and> pr b = Some n \<and>
        pull_reply F (calls st @ [CreateAccessToken appJwt]) (repo event) n = Inr head \<longrightarrow>
        check_provenance F ghToken event (sent (CreateAccessToken appJwt) st) =
          (Return (Some (toLowerCase (case head of None \<Rightarrow> [] | Some h \<Rightarrow> h) = toLowerCase (commit_sha b)),
                   Some (toLowerCase (case head of None \<Rightarrow> [] | Some h \<Rightarrow> h))),
           sent (GetPull ghToken (repo event) n) (sent (CreateAccessToken appJwt) st)) \<and>
        map_option row_overall_verdict (stored_row (snd (handlePostEvents P E F req st)) (event_id event)) =
          Some (verdict_column
                  (effective_verdict
                     (toLowerCase (case head of None \<Rightarrow> [] | Some h \<Rightarrow> h) = toLowerCase (commit_sha b))
                     (overall_verdict event))) \<and>
        (\<forall>resp. fst (handlePostEvents P E F req st) = Return resp \<longrightarrow>
           status_of resp = 201 \<and>
           response_field resp ''verdict'' =
             map_option prim_json
               (effective_verdict
                  (toLowerCase (case head of None \<Rightarrow> [] | Some h \<Rightarrow> h) = toLowerCase (commit_sha b))
                  (overall_verdict event)) \<and>
           response_field resp ''provenance_verified'' =
             Some (JBool (toLowerCase (case head of None \<Rightarrow> [] | Some h \<Rightarrow> h) = toLowerCase (commit_sha b))))) \<and>
     (build event = None \<or> (\<exists>b'. build event = Some b' \<and> pr b' = None) \<longrightarrow>
        check_provenance F ghToken event (sent (CreateAccessToken appJwt) st) =
          (Return (None, None), sent (CreateAccessToken appJwt) st) \<and>
        map_option row_overall_verdict (stored_row (snd (handlePostEvents P E F req st)) (event_id event)) =
          Some (verdict_column (overall_verdict event)) \<and>
        (\<forall>resp. fst (handlePostEvents P E F req st) = Return resp \<longrightarrow>
           status_of resp = 201 \<and>
           response_field resp ''verdict'' = map_option prim_json (overall_verdict event) \<and>
           response_field resp ''provenance_verified'' = Some JNull))"
proof -
  let ?st0 = "sent (CreateAccessToken appJwt) st"
  let ?j = "stringify (event_json event)"
  have h: "handlePostEvents P E F req st = ingest P E F event ?j (sha256Hex P ?j) st"
    using handle_validated[OF auth body valid] new by simp
  have run: "check_provenance F ghToken event ?st0 = (Return (pv, hs), st1) \<Longrightarrow>
      map_option row_overall_verdict (stored_row (snd (handlePostEvents P E F req st)) (event_id event)) =
        Some (verdict_column (case pv of None \<Rightarrow> overall_verdict event
                              | Some v \<Rightarrow> effective_verdict v (overall_verdict event))) \<and>
      (\<forall>resp. fst (handlePostEvents P E F req st) = Return resp \<longrightarrow>
         status_of resp = 201 \<and>
         response_field resp ''verdict'' =
           map_option prim_json
             (case pv of None \<Rightarrow> overall_verdict event | Some v \<Rightarrow> effective_verdict v (overall_verdict event)) \<and>
         response_field resp ''provenance_verified'' = Some (case pv of None \<Rightarrow> JNull | Some v \<Rightarrow> JBool v))"
    for pv hs st1
  proof -
    assume c: "check_provenance F ghToken event ?st0 = (Return (pv, hs), st1)"
    have fr: "events st1 = events st" "ticks st1 = ticks st"
      using check_provenance_frame[OF c] by simp_all
    have i: "handlePostEvents P E F req st =
        publish P E F ghToken event
          (case pv of None \<Rightarrow> overall_verdict event | Some v \<Rightarrow> effective_verdict v (overall_verdict event)) pv hs
          (insert_event P event
             (case pv of None \<Rightarrow> overall_verdict event | Some v \<Rightarrow> effective_verdict v (overall_verdict event))
             (sha256Hex P ?j) ?j st1)"
      using h ingest_run[OF jwt tok c] by simp
    show ?thesis
      unfolding i
      using stored_after_publish[OF new fr] publish_response
      by simp
  qed
  show ?thesis
  proof (intro conjI impI)
    show "map_option prim_json (overall_verdict event) = jsGet payload ''overall_verdict''"
      using valid by (rule accepted_verdict)
  next
    assume a: "build event = Some b \<and> pr b = Some n \<and>
        pull_reply F (calls st @ [CreateAccessToken appJwt]) (repo event) n = Inr head"
    have "validate_build (Number_of P) payload = Inr (Some b)"
      using accepted_fields(2)[OF valid] a by simp
    then have nz: "commit_sha b \<noteq> []" "n \<noteq> 0"
      using validate_build_Some a by blast+
    show c: "check_provenance F ghToken event ?st0 =
          (Return (Some (toLowerCase (case head of None \<Rightarrow> [] | Some h \<Rightarrow> h) = toLowerCase (commit_sha b)),
                   Some (toLowerCase (case head of None \<Rightarrow> [] | Some h \<Rightarrow> h))),
           sent (GetPull ghToken (repo event) n) ?st0)"
      using a nz by (intro provenance_checked) simp_all
    from run[OF c]
    show "map_option row_overall_verdict (stored_row (snd (handlePostEvents P E F req st)) (event_id event)) =
          Some (verdict_column
                  (effective_verdict
                     (toLowerCase (case head of None \<Rightarrow> [] | Some h \<Rightarrow> h) = toLowerCase (commit_sha b))
                     (overall_verdict event)))"
      by simp
    from run[OF c]
    show "\<forall>resp. fst (handlePostEvents P E F req st) = Return resp \<longrightarrow>
           status_of resp = 201 \<and>
           response_field resp ''verdict'' =
             map_option prim_json
               (effective_verdict
                  (toLowerCase (case head of None \<Rightarrow> [] | Some h \<Rightarrow> h) = toLowerCase (commit_sha b))
                  (overall_verdict event)) \<and>
           response_field resp ''provenance_verified'' =
             Some (JBool (toLowerCase (case head of None \<Rightarrow> [] | Some h \<Rightarrow> h) = toLowerCase (commit_sha b)))"
      by simp
  next
    assume a: "build event = None \<or> (\<exists>b'. build event = Some b' \<and> pr b' = None)"
    show c: "check_provenance F ghToken event ?st0 = (Return (None, None), ?st0)"
      using a by (rule provenance_absent)
    from run[OF c]
    show "map_option row_overall_verdict (stored_row (snd (handlePostEvents P E F req st)) (event_id event)) =
          Some (verdict_column (overall_verdict event))"
      by simp
    from run[OF c]
    show "\<forall>resp. fst (handlePostEvents P E F req st) = Return resp \<longrightarrow>
           status_of resp = 201 \<and>
           response_field resp ''verdict'' = map_option prim_json (overall_verdict event) \<and>
           response_field resp ''provenance_verified'' = Some JNull"
      by simp
  qed
qed

subsection \<open>The example run\<close>

lemma example_valid:
  "validateEvent (Number_of example_platform) example_payload = Accepted example_event"
  by code_simp

lemma example_auth: "requireAuth (example_request payload) example_env = None"
  by (simp add: requireAuth_def example_request_def example_env_def)

lemma example_lower: "toLowerCase ''abc1234def'' = ''abc1234def''" "toLowerCase ''ffffffffff'' = ''ffffffffff''"
  by (simp_all add: toLowerCase_def lower_char_def upper_chars_def lower_chars_def)

lemma example_run:
  assumes "toLowerCase h = h"
  shows "handlePostEvents example_platform example_env (example_forge h cs upd)
       (example_request example_payload) empty_state =
     publish example_platform example_env (example_forge h cs upd) ''ghs_token'' example_event
       (effective_verdict (h = ''abc1234def'') (Some (PStr ''PASS''))) (Some (h = ''abc1234def'')) (Some h)
       (insert_event example_platform example_event
          (effective_verdict (h = ''abc1234def'') (Some (PStr ''PASS'')))
          (stringify (event_json example_event)) (stringify (event_json example_event))
          (sent (GetPull ''ghs_token'' ''acme/web'' 7) (sent (CreateAccessToken ''jwt'') empty_state)))"
proof -
  let ?F = "example_forge h cs upd"
  let ?st0 = "sent (CreateAccessToken ''jwt'') empty_state"
  have new: "stored_row empty_state (event_id example_event) = None"
    by (simp add: stored_row_def empty_state_def)
  have jwt: "createAppJwt example_platform = Return ''jwt''"
    by (simp add: example_platform_def)
  have tok: "access_token_reply ?F (calls empty_state) = Inr ''ghs_token''"
    by (simp add: example_forge_def)
  have c: "check_provenance ?F ''ghs_token'' example_event ?st0 =
      (Return (Some (h = ''abc1234def''), Some h), sent (GetPull ''ghs_token'' ''acme/web'' 7) ?st0)"
    using provenance_checked[of example_event "\<lparr> commit_sha = ''abc1234def'', pr = Some 7 \<rparr>" 7 ?F ?st0
        "Some h" "''ghs_token''"] assms
    by (simp add: example_event_def example_forge_def example_lower)
  have "handlePostEvents example_platform example_env ?F (example_request example_payload) empty_state =
      ingest example_platform example_env ?F example_event (stringify (event_json example_event))
        (sha256Hex example_platform (stringify (event_json example_event))) empty_state"
    using handle_validated[OF example_auth _ example_valid, of example_payload ?F empty_state] new
    by (simp add: example_request_def)
  also have "sha256Hex example_platform (stringify (event_json example_event)) = stringify (event_json example_event)"
    by (simp add: example_platform_def)
  finally show ?thesis
    using ingest_run[OF jwt tok c] by (simp add: example_event_def)
qed

lemma example_labels_ok:
  "fst (applyLabelRules P E (example_forge h cs upd) tok rp n T V st) = Return ()"
  by (simp add: applyLabelRules_def getIssueDetails_def putIssueLabels_def example_forge_def
      split: option.splits)

lemma example_publish_created:
  assumes "relay_status_comment st (repo example_event, issue_number example_event) = None"
  shows "fst (publish example_platform example_env (example_forge h [] upd) tok example_event eff pv hs st) =
     Return (JsonResponse 201
       (JObj ([(''ok'', JBool True), (''event_id'', JStr ''evt-00000001''), (''stored'', JBool True),
               (''rolling_comment_id'', JStr ''9001'')]
              @ opt_field ''verdict'' prim_json eff
              @ [(''provenance_verified'', (case pv of None \<Rightarrow> JNull | Some v \<Rightarrow> JBool v))])))"
proof -
  let ?F = "example_forge h [] upd"
  let ?st3 = "sent (GetIssue tok (repo example_event) (issue_number example_event)) st"
  let ?b = "status_body example_platform example_event pv hs example_issue ?st3"
  have g: "getIssueDetails ?F tok (repo example_event) (issue_number example_event) st = (Return example_issue, ?st3)"
    by (simp add: getIssueDetails_def example_forge_def)
  have u: "upsertRollingComment example_platform ?F tok (repo example_event) (issue_number example_event) ?b ?st3 =
      (Return ''9001'',
       mapped_to example_platform (repo example_event) (issue_number example_event) ''9001''
         (sent (CreateComment tok (repo example_event) (issue_number example_event) ?b)
            (sent (ListComments tok (repo example_event) (issue_number example_event) 100 1) ?st3)))"
  proof -
    let ?rp = "repo example_event" and ?n = "issue_number example_event"
    let ?st4 = "sent (ListComments tok ?rp ?n 100 1) ?st3"
    have "upsertRollingComment example_platform ?F tok ?rp ?n ?b ?st3 =
        scan_then_create example_platform ?F tok ?rp ?n ?b ?st3"
      using assms by (intro upsert_no_mapping) simp
    also have "\<dots> = create_new example_platform ?F tok ?rp ?n ?b ?st4"
      by (rule scan_then_create_none[OF example_scan_empty])
    also have "\<dots> = (Return (show_int 9001),
        mapped_to example_platform ?rp ?n (show_int 9001) (sent (CreateComment tok ?rp ?n ?b) ?st4))"
      by (rule create_new_ok) (simp add: example_forge_def)
    finally show ?thesis
      by (simp only: show_int_9001)
  qed
  obtain st5 where l: "applyLabelRules example_platform example_env ?F tok (repo example_event)
      (issue_number example_event) (event_type example_event) eff
      (mapped_to example_platform (repo example_event) (issue_number example_event) ''9001''
         (sent (CreateComment tok (repo example_event) (issue_number example_event) ?b)
            (sent (ListComments tok (repo example_event) (issue_number example_event) 100 1) ?st3))) = (Return (), st5)"
    using example_labels_ok[of example_platform example_env h "[]" upd tok]
    by (metis prod.collapse)
  have "event_id example_event = ''evt-00000001''"
    by (simp add: example_event_def)
  then show ?thesis
    by (simp only: publish_def g u l prod.case result.case fst_conv append.simps)
qed

lemma example_state_unmapped:
  "relay_status_comment (insert_event P ev eff h j (sent c (sent c' empty_state))) k = None"
  by (simp add: insert_event_def nowIso_def empty_state_def)

theorem provenance_downgrade_witness:
  "jsGet example_payload ''overall_verdict'' = Some (JStr ''PASS'') \<and>
   overall_verdict example_event = Some (PStr ''PASS'') \<and>
   map_option row_overall_verdict
     (stored_row (snd (handlePostEvents example_platform example_env (example_forge ''ffffffffff'' [] (Inr ()))
                         (example_request example_payload) empty_state)) ''evt-00000001'') =
     Some (Some (PStr ''PASS_UNVERIFIED'')) \<and>
   fst (handlePostEvents example_platform example_env (example_forge ''ffffffffff'' [] (Inr ()))
          (example_request example_payload) empty_state) =
     Return (JsonResponse 201
       (JObj [(''ok'', JBool True), (''event_id'', JStr ''evt-00000001''), (''stored'', JBool True),
              (''rolling_comment_id'', JStr ''9001''), (''verdict'', JStr ''PASS_UNVERIFIED''),
              (''provenance_verified'', JBool False)]))"
proof -
  let ?F = "example_forge ''ffffffffff'' [] (Inr ())"
  have body: "req_json (example_request example_payload) = Some example_payload"
    by (simp add: example_request_def)
  have new: "stored_row empty_state (event_id example_event) = None"
    by (simp add: stored_row_def empty_state_def)
  have jwt: "createAppJwt example_platform = Return ''jwt''"
    by (simp add: example_platform_def)
  have tok: "access_token_reply ?F (calls empty_state) = Inr ''ghs_token''"
    by (simp add: example_forge_def)
  have b: "build example_event = Some \<lparr> commit_sha = ''abc1234def'', pr = Some 7 \<rparr>"
    by (simp add: example_event_def)
  have p: "pull_reply ?F (calls empty_state @ [CreateAccessToken ''jwt'']) (repo example_event) 7 = Inr (Some ''ffffffffff'')"
    by (simp add: example_forge_def)
  have v: "jsGet example_payload ''overall_verdict'' = Some (JStr ''PASS'')"
    by (simp add: example_payload_def)
  note t = provenance_downgrade[OF example_auth body example_valid new jwt tok,
      where b = "\<lparr> commit_sha = ''abc1234def'', pr = Some 7 \<rparr>" and n = 7 and head = "Some ''ffffffffff''"]
  have s: "map_option row_overall_verdict
     (stored_row (snd (handlePostEvents example_platform example_env ?F
                         (example_request example_payload) empty_state)) ''evt-00000001'') =
     Some (Some (PStr ''PASS_UNVERIFIED''))"
    using t b p v
    by (simp add: example_lower effective_verdict_def verdict_column_def example_event_def)
  have r: "fst (handlePostEvents example_platform example_env ?F (example_request example_payload) empty_state) =
     Return (JsonResponse 201
       (JObj [(''ok'', JBool True), (''event_id'', JStr ''evt-00000001''), (''stored'', JBool True),
              (''rolling_comment_id'', JStr ''9001''), (''verdict'', JStr ''PASS_UNVERIFIED''),
              (''provenance_verified'', JBool False)]))"
    by (simp add: example_run example_lower example_publish_created example_state_unmapped
        effective_verdict_def opt_field_def)
  have w: "overall_verdict example_event = Some (PStr ''PASS'')"
    by (simp add: example_event_def)
  from v w s r show ?thesis by simp
qed

subsection \<open>Idempotency\<close>

text \<open>
  C2.  An authenticated request carries a payload that is validated to \<open>event\<close>.  When a
  row has the event id and its hash is the hash of the new payload, the response is 200
  with \<^verbatim>\<open>{ok: true, idempotent: true, event_id}\<close> and the state is the one before: no
  row is written and no request is sent to the forge.  When the hashes differ, the
  response is 409 with both hashes, and the state is the one before.  So a state that
  has changed had no row of the event id.  When no row has the id, the handler runs
  the pipeline of a new event: with the token minted and the provenance checked, one
  row is appended for the event and the rest (comment upsert, label transitions) runs
  on the state with that row.
\<close>

theorem idempotent_ingestion:
  assumes auth: "requireAuth req E = None" and body: "req_json req = Some payload"
    and valid: "validateEvent (Number_of P) payload = Accepted event"
  shows
    "(stored_row st (event_id event) = Some existing \<and>
        row_payload_hash existing = sha256Hex P (stringify (event_json event)) \<longrightarrow>
        handlePostEvents P E F req st =
          (Return (JsonResponse 200
                     (JObj [(''ok'', JBool True), (''idempotent'', JBool True),
                            (''event_id'', JStr (event_id event))])), st)) \<and>
     (stored_row st (event_id event) = Some existing \<and>
        row_payload_hash existing \<noteq> sha256Hex P (stringify (event_json event)) \<longrightarrow>
        handlePostEvents P E F req st =
          (Return (JsonResponse 409
                     (JObj [(''error'', JStr ''event_id already exists with different payload''),
                            (''details'',
                             JObj [(''event_id'', JStr (event_id event)),
                                   (''existing_hash'', JStr (row_payload_hash existing)),
                                   (''new_hash'', JStr (sha256Hex P (stringify (event_json event))))])])), st)) \<and>
     (snd (handlePostEvents P E F req st) \<noteq> st \<longrightarrow> stored_row st (event_id event) = None) \<and>
     (stored_row st (event_id event) = None \<longrightarrow>
        handlePostEvents P E F req st =
          ingest P E F event (stringify (event_json event)) (sha256Hex P (stringify (event_json event))) st) \<and>
     (stored_row st (event_id event) = None \<and> createAppJwt P = Return appJwt \<and>
        access_token_reply F (calls st) = Inr ghToken \<and>
        check_provenance F ghToken event (sent (CreateAccessToken appJwt) st) = (Return (pv, hs), st1) \<longrightarrow>
        handlePostEvents P E F req st =
          publish P E F ghToken event
            (case pv of None \<Rightarrow> overall_verdict event | Some v \<Rightarrow> effective_verdict v (overall_verdict event)) pv hs
            (insert_event P event
               (case pv of None \<Rightarrow> overall_verdict event | Some v \<Rightarrow> effective_verdict v (overall_verdict event))
               (sha256Hex P (stringify (event_json event))) (stringify (event_json event)) st1) \<and>
        (\<exists>row. events (snd (handlePostEvents P E F req st)) = events st @ [row] \<and>
               row_event_id row = event_id event \<and>
               row_payload_hash row = sha256Hex P (stringify (event_json event)) \<and>
               row_payload_json row = stringify (event_json event)))"
proof -
  note h = handle_validated[OF auth body valid, of F st]
  have same: "stored_row st (event_id event) = Some existing \<Longrightarrow> snd (handlePostEvents P E F req st) = st"
    for existing
    by (simp add: h)
  show ?thesis
  proof (intro conjI impI)
    assume "stored_row st (event_id event) = Some existing \<and>
        row_payload_hash existing = sha256Hex P (stringify (event_json event))"
    then show "handlePostEvents P E F req st =
          (Return (JsonResponse 200
                     (JObj [(''ok'', JBool True), (''idempotent'', JBool True),
                            (''event_id'', JStr (event_id event))])), st)"
      by (simp add: h)
  next
    assume "stored_row st (event_id event) = Some existing \<and>
        row_payload_hash existing \<noteq> sha256Hex P (stringify (event_json event))"
    then show "handlePostEvents P E F req st =
          (Return (JsonResponse 409
                     (JObj [(''error'', JStr ''event_id already exists with different payload''),
                            (''details'',
                             JObj [(''event_id'', JStr (event_id event)),
                                   (''existing_hash'', JStr (row_payload_hash existing)),
                                   (''new_hash'', JStr (sha256Hex P (stringify (event_json event))))])])), st)"
      by (simp add: h conflict_def)
  next
    assume "snd (handlePostEvents P E F req st) \<noteq> st"
    then show "stored_row st (event_id event) = None"
      using same by (cases "stored_row st (event_id event)") auto
  next
    assume "stored_row st (event_id event) = None"
    then show "handlePostEvents P E F req st =
          ingest P E F event (stringify (event_json event)) (sha256Hex P (stringify (event_json event))) st"
      by (simp add: h)
  next
    assume a: "stored_row st (event_id event) = None \<and> createAppJwt P = Return appJwt \<and>
        access_token_reply F (calls st) = Inr ghToken \<and>
        check_provenance F ghToken event (sent (CreateAccessToken appJwt) st) = (Return (pv, hs), st1)"
    then have c: "check_provenance F ghToken event (sent (CreateAccessToken appJwt) st) = (Return (pv, hs), st1)"
      by simp
    have fr: "events st1 = events st"
      using check_provenance_frame[OF c] by simp
    show i: "handlePostEvents P E F req st =
          publish P E F ghToken event
            (case pv of None \<Rightarrow> overall_verdict event | Some v \<Rightarrow> effective_verdict v (overall_verdict event)) pv hs
            (insert_event P event
               (case pv of None \<Rightarrow> overall_verdict event | Some v \<Rightarrow> effective_verdict v (overall_verdict event))
               (sha256Hex P (stringify (event_json event))) (stringify (event_json event)) st1)"
      using a h ingest_run[of P appJwt F st ghToken event pv hs st1] by simp
    show "\<exists>row. events (snd (handlePostEvents P E F req st)) = events st @ [row] \<and>
               row_event_id row = event_id event \<and>
               row_payload_hash row = sha256Hex P (stringify (event_json event)) \<and>
               row_payload_json row = stringify (event_json event)"
      unfolding i by (simp add: events_insert_event fr)
  qed
qed

lemma stringify_object_not_empty: "stringify (event_json ev) \<noteq> []"
  by (simp add: event_json_def)

theorem idempotent_ingestion_witness:
  "handlePostEvents example_platform example_env (example_forge ''abc1234def'' [] (Inr ()))
      (example_request example_payload) (stored_state (stringify (event_json example_event))) =
     (Return (JsonResponse 200
                (JObj [(''ok'', JBool True), (''idempotent'', JBool True),
                       (''event_id'', JStr ''evt-00000001'')])),
      stored_state (stringify (event_json example_event))) \<and>
   handlePostEvents example_platform example_env (example_forge ''abc1234def'' [] (Inr ()))
      (example_request example_payload) (stored_state []) =
     (Return (JsonResponse 409
                (JObj [(''error'', JStr ''event_id already exists with different payload''),
                       (''details'',
                        JObj [(''event_id'', JStr ''evt-00000001''),
                              (''existing_hash'', JStr []),
                              (''new_hash'', JStr (stringify (event_json example_event)))])])),
      stored_state []) \<and>
   events (snd (handlePostEvents example_platform example_env (example_forge ''abc1234def'' [] (Inr ()))
      (example_request example_payload) empty_state)) =
     [\<lparr> row_event_id = ''evt-00000001'', row_repo = ''acme/web'', row_issue_number = 42,
         row_event_type = ''qa.result_submitted'', row_role = ''QA'', row_agent = ''qa-bot'',
         row_environment = None, row_overall_verdict = Some (PStr ''PASS''),
         row_created_at = ''2026-01-01T00:00:00Z'',
         row_payload_hash = stringify (event_json example_event),
         row_payload_json = stringify (event_json example_event) \<rparr>]"
proof -
  let ?F = "example_forge ''abc1234def'' [] (Inr ())"
  let ?j = "stringify (event_json example_event)"
  have body: "req_json (example_request example_payload) = Some example_payload"
    by (simp add: example_request_def)
  have id: "event_id example_event = ''evt-00000001''"
    by (simp add: example_event_def)
  have sha: "sha256Hex example_platform ?j = ?j"
    by (simp add: example_platform_def)
  have s: "stored_row (stored_state h) (event_id example_event) = Some (hd (events (stored_state h)))"
      "row_payload_hash (hd (events (stored_state h))) = h" for h
    by (simp_all add: stored_row_def stored_state_def id)
  have p1: "stored_row (stored_state ?j) (event_id example_event) = Some (hd (events (stored_state ?j))) \<and>
      row_payload_hash (hd (events (stored_state ?j))) = sha256Hex example_platform ?j"
    using s[of ?j] sha by (simp only: simp_thms)
  have p2: "stored_row (stored_state []) (event_id example_event) = Some (hd (events (stored_state []))) \<and>
      row_payload_hash (hd (events (stored_state []))) \<noteq> sha256Hex example_platform ?j"
    using s[of "[]"] sha stringify_object_not_empty[of example_event] by (simp only: simp_thms)
  note t1 = idempotent_ingestion[OF example_auth body example_valid, where F = ?F
      and st = "stored_state ?j" and existing = "hd (events (stored_state ?j))",
      THEN conjunct1, THEN mp, OF p1]
  note t2 = idempotent_ingestion[OF example_auth body example_valid, where F = ?F
      and st = "stored_state []" and existing = "hd (events (stored_state []))",
      THEN conjunct2, THEN conjunct1, THEN mp, OF p2]
  have a: "handlePostEvents example_platform example_env ?F (example_request example_payload) (stored_state ?j) =
     (Return (JsonResponse 200
                (JObj [(''ok'', JBool True), (''idempotent'', JBool True),
                       (''event_id'', JStr ''evt-00000001'')])), stored_state ?j)"
    using t1 by (simp only: id)
  have hh: "row_payload_hash (hd (events (stored_state []))) = []"
    by (rule s(2))
  have b: "handlePostEvents example_platform example_env ?F (example_request example_payload) (stored_state []) =
     (Return (JsonResponse 409
                (JObj [(''error'', JStr ''event_id already exists with different payload''),
                       (''details'',
                        JObj [(''event_id'', JStr ''evt-00000001''),
                              (''existing_hash'', JStr []),
                              (''new_hash'', JStr ?j)])])), stored_state [])"
    using t2 by (simp only: id hh sha)
  have e: "events (snd (handlePostEvents example_platform example_env ?F
      (example_request example_payload) empty_state)) =
     events (insert_event example_platform example_event
          (effective_verdict (''abc1234def'' = ''abc1234def'') (Some (PStr ''PASS'')))
          ?j ?j (sent (GetPull ''ghs_token'' ''acme/web'' 7) (sent (CreateAccessToken ''jwt'') empty_state)))"
    by (simp only: example_run[OF example_lower(1)] events_publish)
  have f: "event_id example_event = ''evt-00000001''" "repo example_event = ''acme/web''"
    "issue_number example_event = 42" "event_type example_event = ''qa.result_submitted''"
    "role example_event = ''QA''" "agent example_event = ''qa-bot''" "environment example_event = None"
    by (simp_all add: example_event_def)
  have k: "clock example_platform 0 = ''2026-01-01T00:00:00Z''"
    by (simp add: example_platform_def digits.simps)
  have t: "ticks (sent (GetPull ''ghs_token'' ''acme/web'' 7) (sent (CreateAccessToken ''jwt'') empty_state)) = 0"
    "events (sent (GetPull ''ghs_token'' ''acme/web'' 7) (sent (CreateAccessToken ''jwt'') empty_state)) = []"
    by (simp_all add: empty_state_def)
  have c: "events (snd (handlePostEvents example_platform example_env ?F
      (example_request example_payload) empty_state)) =
     [\<lparr> row_event_id = ''evt-00000001'', row_repo = ''acme/web'', row_issue_number = 42,
         row_event_type = ''qa.result_submitted'', row_role = ''QA'', row_agent = ''qa-bot'',
         row_environment = None, row_overall_verdict = Some (PStr ''PASS''),
         row_created_at = ''2026-01-01T00:00:00Z'', row_payload_hash = ?j, row_payload_json = ?j \<rparr>]"
    unfolding e events_insert_event f t k
    by (simp add: effective_verdict_def verdict_column_def)
  from a b c show ?thesis by (intro conjI)
qed

subsection \<open>A failed update on the marker-scan path\<close>

text \<open>
  C5: the claim as it was stated fails on the marker-scan path.  The event of scenario 1
  arrives while the issue has no mapping row and its first page holds a marker comment
  whose update the forge answers with 502: the route answers 500 with the error of the
  forge.
\<close>

theorem marker_scan_update_failure_is_500:
  "fst (post_v2_events example_platform example_env
          (example_forge ''abc1234def'' [marker_comment] bad_gateway)
          (example_request example_payload) empty_state) =
     JsonResponse 500
       (JObj [(''error'', JStr ''Internal error''),
              (''details'', JStr ''GitHub update comment error: 502 bad gateway'')])"
proof -
  let ?F = "example_forge ''abc1234def'' [marker_comment] bad_gateway"
  let ?eff = "effective_verdict (''abc1234def'' = ''abc1234def'') (Some (PStr ''PASS''))"
  let ?pv = "Some (''abc1234def'' = ''abc1234def'')"
  let ?hs = "Some ''abc1234def''"
  let ?j = "stringify (event_json example_event)"
  let ?st2 = "insert_event example_platform example_event ?eff ?j ?j
       (sent (GetPull ''ghs_token'' ''acme/web'' 7) (sent (CreateAccessToken ''jwt'') empty_state))"
  let ?rp = "repo example_event" and ?n = "issue_number example_event"
  let ?st3 = "sent (GetIssue ''ghs_token'' ?rp ?n) ?st2"
  let ?b = "status_body example_platform example_event ?pv ?hs example_issue ?st3"
  let ?st4 = "sent (ListComments ''ghs_token'' ?rp ?n 100 1) ?st3"
  have run: "handlePostEvents example_platform example_env ?F (example_request example_payload) empty_state =
      publish example_platform example_env ?F ''ghs_token'' example_event ?eff ?pv ?hs ?st2"
    by (rule example_run[OF example_lower(1)])
  have g: "getIssueDetails ?F ''ghs_token'' ?rp ?n ?st2 = (Return example_issue, ?st3)"
    by (simp add: getIssueDetails_def example_forge_def)
  have nm: "relay_status_comment ?st3 (?rp, ?n) = None"
    by (simp add: sent_def insert_event_def nowIso_def empty_state_def)
  have c: "c_id marker_comment \<noteq> 0" "show_int (c_id marker_comment) = ''555''"
    by (simp_all add: marker_comment_def show_int_555)
  have h: "http_error ''GitHub update comment error: '' (502, ''bad gateway'') =
        ''GitHub update comment error: 502 bad gateway''"
    by (simp add: http_error_def digits.simps)
  have "upsertRollingComment example_platform ?F ''ghs_token'' ?rp ?n ?b ?st3 =
      scan_then_create example_platform ?F ''ghs_token'' ?rp ?n ?b ?st3"
    using nm by (rule upsert_no_mapping)
  also have "\<dots> = update_found example_platform ?F ''ghs_token'' ?rp ?n ?b marker_comment ?st4"
    by (rule scan_then_create_found[OF example_scan c(1)])
  also have "\<dots> = (Throw (http_error ''GitHub update comment error: '' (502, ''bad gateway'')),
      sent (UpdateComment ''ghs_token'' ?rp (show_int (c_id marker_comment)) ?b) ?st4)"
    by (rule update_found_failed) (simp add: example_forge_def bad_gateway_def)
  finally have u: "upsertRollingComment example_platform ?F ''ghs_token'' ?rp ?n ?b ?st3 =
      (Throw ''GitHub update comment error: 502 bad gateway'',
       sent (UpdateComment ''ghs_token'' ?rp (show_int (c_id marker_comment)) ?b) ?st4)"
    by (simp only: h)
  have "publish example_platform example_env ?F ''ghs_token'' example_event ?eff ?pv ?hs ?st2 =
      (Throw ''GitHub update comment error: 502 bad gateway'',
       sent (UpdateComment ''ghs_token'' ?rp (show_int (c_id marker_comment)) ?b) ?st4)"
    using g u by (rule publish_upsert_throw)
  with run have "handlePostEvents example_platform example_env ?F (example_request example_payload) empty_state =
      (Throw ''GitHub update comment error: 502 bad gateway'',
       sent (UpdateComment ''ghs_token'' ?rp (show_int (c_id marker_comment)) ?b) ?st4)"
    by (simp only:)
  then show ?thesis
    by (simp only: post_v2_events_def prod.case result.case fst_conv) simp
qed

subsection \<open>The payload under a downgrade\<close>

lemma map_of_opt_field:
  "map_of (opt_field k f x) k' = (if k' = k then map_option f x else None)"
  by (cases x) (simp_all add: opt_field_def)

lemma event_json_verdict:
  "jsGet (event_json ev) ''overall_verdict'' = map_option prim_json (overall_verdict ev)"
  by (simp add: event_json_def map_of_opt_field map_add_def split: option.splits)

text \<open>
  C10.  An authenticated request carries a payload that is validated to \<open>event\<close>, no row
  has its event id, the token is minted and the provenance check returns \<open>pv\<close>: the
  result of the comparison, or nothing when the event has no \<^verbatim>\<open>build.pr\<close>.  The row
  that is stored has the hash and the text of the serialised event, which are computed
  before the check and do not depend on \<open>pv\<close>; of its columns only \<^verbatim>\<open>overall_verdict\<close>,
  which holds the effective verdict, depends on \<open>pv\<close>.  The event that is serialised
  into \<^verbatim>\<open>payload_json\<close> has the caller's verdict as its \<^verbatim>\<open>overall_verdict\<close>.  And the
  same request, sent again in the state that the first one has left, whatever the forge
  answers then, is answered 200 as idempotent and leaves the state as it is.
\<close>

theorem downgrade_leaves_payload:
  assumes auth: "requireAuth req E = None" and body: "req_json req = Some payload"
    and valid: "validateEvent (Number_of P) payload = Accepted event"
    and new: "stored_row st (event_id event) = None"
    and jwt: "createAppJwt P = Return appJwt" and tok: "access_token_reply F (calls st) = Inr ghToken"
    and prov: "check_provenance F ghToken event (sent (CreateAccessToken appJwt) st) = (Return (pv, hs), st1)"
  shows
    "stored_row (snd (handlePostEvents P E F req st)) (event_id event) =
       Some \<lparr> row_event_id = event_id event, row_repo = repo event,
              row_issue_number = issue_number event, row_event_type = event_type event,
              row_role = role event, row_agent = agent event, row_environment = environment event,
              row_overall_verdict =
                verdict_column (case pv of None \<Rightarrow> overall_verdict event
                                | Some v \<Rightarrow> effective_verdict v (overall_verdict event)),
              row_created_at = clock P (ticks st),
              row_payload_hash = sha256Hex P (stringify (event_json event)),
              row_payload_json = stringify (event_json event) \<rparr> \<and>
     jsGet (event_json event) ''overall_verdict'' = jsGet payload ''overall_verdict'' \<and>
     handlePostEvents P E F' req (snd (handlePostEvents P E F req st)) =
       (Return (JsonResponse 200
                  (JObj [(''ok'', JBool True), (''idempotent'', JBool True),
                         (''event_id'', JStr (event_id event))])),
        snd (handlePostEvents P E F req st))"
proof -
  let ?j = "stringify (event_json event)"
  let ?eff = "case pv of None \<Rightarrow> overall_verdict event | Some v \<Rightarrow> effective_verdict v (overall_verdict event)"
  let ?row = "\<lparr> row_event_id = event_id event, row_repo = repo event,
              row_issue_number = issue_number event, row_event_type = event_type event,
              row_role = role event, row_agent = agent event, row_environment = environment event,
              row_overall_verdict = verdict_column ?eff,
              row_created_at = clock P (ticks st),
              row_payload_hash = sha256Hex P ?j,
              row_payload_json = ?j \<rparr>"
  have fr: "events st1 = events st" "ticks st1 = ticks st"
    using check_provenance_frame[OF prov] by simp_all
  have "handlePostEvents P E F req st = ingest P E F event ?j (sha256Hex P ?j) st"
    using handle_validated[OF auth body valid] new by simp
  then have i: "handlePostEvents P E F req st =
      publish P E F ghToken event ?eff pv hs (insert_event P event ?eff (sha256Hex P ?j) ?j st1)"
    using ingest_run[OF jwt tok prov] by simp
  have s: "stored_row (snd (handlePostEvents P E F req st)) (event_id event) = Some ?row"
    unfolding i by (rule stored_after_publish[OF new fr])
  have v: "jsGet (event_json event) ''overall_verdict'' = jsGet payload ''overall_verdict''"
    using accepted_verdict[OF valid] by (simp add: event_json_verdict)
  have r: "handlePostEvents P E F' req (snd (handlePostEvents P E F req st)) =
       (Return (JsonResponse 200
                  (JObj [(''ok'', JBool True), (''idempotent'', JBool True),
                         (''event_id'', JStr (event_id event))])),
        snd (handlePostEvents P E F req st))"
    using handle_validated[OF auth body valid, of F' "snd (handlePostEvents P E F req st)"] s
    by simp
  from s v r show ?thesis
    by (intro conjI)
qed

theorem downgrade_leaves_payload_witness:
  "map_option row_overall_verdict
     (stored_row (snd (handlePostEvents example_platform example_env (example_forge ''ffffffffff'' [] (Inr ()))
                         (example_request example_payload) empty_state)) ''evt-00000001'') =
     Some (Some (PStr ''PASS_UNVERIFIED'')) \<and>
   map_option row_payload_json
     (stored_row (snd (handlePostEvents example_platform example_env (example_forge ''ffffffffff'' [] (Inr ()))
                         (example_request example_payload) empty_state)) ''evt-00000001'') =
     Some (stringify (event_json example_event)) \<and>
   jsGet (event_json example_event) ''overall_verdict'' = Some (JStr ''PASS'') \<and>
   handlePostEvents example_platform example_env (example_forge ''abc1234def'' [] (Inr ()))
       (example_request example_payload)
       (snd (handlePostEvents example_platform example_env (example_forge ''ffffffffff'' [] (Inr ()))
               (example_request example_payload) empty_state)) =
     (Return (JsonResponse 200
                (JObj [(''ok'', JBool True), (''idempotent'', JBool True),
                       (''event_id'', JStr ''evt-00000001'')])),
      snd (handlePostEvents example_platform example_env (example_forge ''ffffffffff'' [] (Inr ()))
             (example_request example_payload) empty_state))"
proof -
  let ?F = "example_forge ''ffffffffff'' [] (Inr ())"
  let ?st0 = "sent (CreateAccessToken ''jwt'') empty_state"
  have body: "req_json (example_request example_payload) = Some example_payload"
    by (simp add: example_request_def)
  have new: "stored_row empty_state (event_id example_event) = None"
    by (simp add: stored_row_def empty_state_def)
  have jwt: "createAppJwt example_platform = Return ''jwt''"
    by (simp add: example_platform_def)
  have tok: "access_token_reply ?F (calls empty_state) = Inr ''ghs_token''"
    by (simp add: example_forge_def)
  have c: "check_provenance ?F ''ghs_token'' example_event ?st0 =
      (Return (Some False, Some ''ffffffffff''), sent (GetPull ''ghs_token'' ''acme/web'' 7) ?st0)"
    using provenance_checked[of example_event "\<lparr> commit_sha = ''abc1234def'', pr = Some 7 \<rparr>" 7 ?F ?st0
        "Some ''ffffffffff''" "''ghs_token''"]
    by (simp add: example_event_def example_forge_def example_lower)
  note t = downgrade_leaves_payload[OF example_auth body example_valid new jwt tok c,
      where F' = "example_forge ''abc1234def'' [] (Inr ())"]
  have id: "event_id example_event = ''evt-00000001''"
    by (simp add: example_event_def)
  have ov: "overall_verdict example_event = Some (PStr ''PASS'')"
    by (simp add: example_event_def)
  have v: "jsGet example_payload ''overall_verdict'' = Some (JStr ''PASS'')"
    by (simp add: example_payload_def)
  from t[THEN conjunct1] have a: "map_option row_overall_verdict
     (stored_row (snd (handlePostEvents example_platform example_env ?F
                         (example_request example_payload) empty_state)) ''evt-00000001'') =
     Some (Some (PStr ''PASS_UNVERIFIED''))"
    by (simp add: id ov effective_verdict_def verdict_column_def)
  from t[THEN conjunct1] have b: "map_option row_payload_json
     (stored_row (snd (handlePostEvents example_platform example_env ?F
                         (example_request example_payload) empty_state)) ''evt-00000001'') =
     Some (stringify (event_json example_event))"
    by (simp add: id)
  from t[THEN conjunct2, THEN conjunct1] have d: "jsGet (event_json example_event) ''overall_verdict'' = Some (JStr ''PASS'')"
    by (simp only: v)
  from t[THEN conjunct2, THEN conjunct2] have e: "handlePostEvents example_platform example_env (example_forge ''abc1234def'' [] (Inr ()))
       (example_request example_payload)
       (snd (handlePostEvents example_platform example_env ?F (example_request example_payload) empty_state)) =
     (Return (JsonResponse 200
                (JObj [(''ok'', JBool True), (''idempotent'', JBool True),
                       (''event_id'', JStr ''evt-00000001'')])),
      snd (handlePostEvents example_platform example_env ?F (example_request example_payload) empty_state))"
    by (simp only: id)
  from a b d e show ?thesis
    by (intro conjI)
qed

end
